theory Spec2Isabelle
  imports Complex_Main "HOL-Library.Word"
begin

section \<open>The tabletop object detector (object\_detection\_node.cpp)\<close>

text \<open>
  The node aggregates camera frames, pre-filters them, fits a support plane, clusters
  what is left and keeps the clusters that are close to the plane. This theory embeds
  the functions of \<^verbatim>\<open>src/object_detection_node.cpp\<close> and states the
  properties of the specification over them.

  Numbers: a finite C++ \<^verbatim>\<open>float\<close> or \<^verbatim>\<open>double\<close> is modelled as the
  \<^typ>\<open>real\<close> it denotes. Comparisons of such values are exact, so the control flow
  of \<^verbatim>\<open>filter\<close> is the same over the reals. Where the code computes with them
  (lines 373-375 add a double to a float and store the sum in a float), the model rounds
  as the code does. The decimal literals that are handed to the library or compared with
  its results (0.09, 0.04, 0.02, 0.005) stand for the floating-point values nearest to them.
\<close>

subsection \<open>Data\<close>

text \<open>\<^verbatim>\<open>pcl::PointXYZRGB\<close>: a position and an 8-bit colour per channel.\<close>

record PointT =
  pt_x :: real
  pt_y :: real
  pt_z :: real
  pt_r :: "8 word"
  pt_g :: "8 word"
  pt_b :: "8 word"

text \<open>\<^verbatim>\<open>pcl::PointXYZ\<close>, the colourless point \<^verbatim>\<open>filter\<close> copies each
  cluster point into.\<close>

type_synonym PointXYZ = "real \<times> real \<times> real"

text \<open>\<^verbatim>\<open>Eigen::Vector4f\<close>.\<close>

type_synonym Vector4f = "real \<times> real \<times> real \<times> real"

text \<open>\<^verbatim>\<open>pcl::PointCloud<PointT>\<close>: the ordered points and, of the header,
  the frame-of-reference tag.\<close>

record PointCloudT =
  points :: "PointT list"
  frame_id :: string

text \<open>An unchecked read beyond the end of a vector.\<close>

datatype error = IndexOutOfRange

subsection \<open>The point cloud library\<close>

text \<open>
  The filters and estimators that \<^verbatim>\<open>seg_cb\<close>, \<^verbatim>\<open>computeClusters\<close> and
  \<^verbatim>\<open>filter\<close> call belong to the point cloud library, whose code is not part of
  the repository. They are parameters of the model, one field each:
  \<^item> \<^verbatim>\<open>passThrough zMin zMax\<close>: \<^verbatim>\<open>pcl::PassThrough\<close> on the field z with
    the given limits (lines 307-311);
  \<^item> \<^verbatim>\<open>voxelGrid leaf\<close>: \<^verbatim>\<open>pcl::VoxelGrid\<close> with the given leaf size
    (lines 314-318);
  \<^item> \<^verbatim>\<open>segment\<close>: \<^verbatim>\<open>pcl::SACSegmentation::segment\<close> as lines 333-340
    configure it (RANSAC plane, 1000 iterations, threshold 0.02, refined coefficients);
    it yields the inlier indices and the coefficient values;
  \<^item> \<^verbatim>\<open>extractIndices cloud indices negative\<close>: \<^verbatim>\<open>pcl::ExtractIndices\<close>
    (lines 350-353 and 362-363), which may read beyond the cloud;
  \<^item> \<^verbatim>\<open>cropBox min max\<close>: \<^verbatim>\<open>pcl::CropBox\<close> (lines 387-391);
  \<^item> \<^verbatim>\<open>euclideanClusterExtraction tolerance minSize maxSize\<close>:
    \<^verbatim>\<open>pcl::EuclideanClusterExtraction::extract\<close> over a k-d tree of the cloud
    (lines 208-218); it yields one index list per cluster;
  \<^item> \<^verbatim>\<open>pointToPlaneDistance\<close>: \<^verbatim>\<open>pcl::pointToPlaneDistance\<close> (line 153).
\<close>

record pcl =
  passThrough :: "real \<Rightarrow> real \<Rightarrow> PointT list \<Rightarrow> PointT list"
  voxelGrid :: "real \<Rightarrow> PointT list \<Rightarrow> PointT list"
  segment :: "PointT list \<Rightarrow> nat list \<times> real list"
  extractIndices :: "PointT list \<Rightarrow> nat list \<Rightarrow> bool \<Rightarrow> error + PointT list"
  cropBox :: "Vector4f \<Rightarrow> Vector4f \<Rightarrow> PointT list \<Rightarrow> PointT list"
  euclideanClusterExtraction :: "real \<Rightarrow> nat \<Rightarrow> nat \<Rightarrow> PointT list \<Rightarrow> nat list list"
  pointToPlaneDistance :: "PointXYZ \<Rightarrow> Vector4f \<Rightarrow> real"

subsection \<open>The proximity filter\<close>

text \<open>Line 60: the tolerance \<^verbatim>\<open>seg_cb\<close> passes to \<^verbatim>\<open>filter\<close>.\<close>

definition plane_distance_tolerance :: real where
  "plane_distance_tolerance = 0.09"

text \<open>
  Lines 147-164, the loop of \<^verbatim>\<open>filter\<close>. The state is the pair
  \<^verbatim>\<open>(min_distance, max_distance)\<close>; \<open>pdist\<close> is the library's
  \<^verbatim>\<open>pcl::pointToPlaneDistance\<close>.
\<close>

fun filter_loop ::
  "(PointXYZ \<Rightarrow> Vector4f \<Rightarrow> real) \<Rightarrow> Vector4f \<Rightarrow> PointT list \<Rightarrow> real \<times> real \<Rightarrow> real \<times> real"
where
  "filter_loop pdist plane_coefficients [] (min_distance, max_distance) =
     (min_distance, max_distance)"
| "filter_loop pdist plane_coefficients (p # ps) (min_distance, max_distance) =
     (let p_i = (pt_x p, pt_y p, pt_z p);
          distance = pdist p_i plane_coefficients;
          min_distance' = (if distance < min_distance then distance else min_distance);
          max_distance' = (if distance > max_distance then distance else max_distance)
      in filter_loop pdist plane_coefficients ps (min_distance', max_distance'))"

text \<open>Lines 141-179, \<^verbatim>\<open>filter\<close>: the sentinels 1000.0 and -1000.0, the loop,
  and the test of the tracked minimum against the tolerance.\<close>

definition filter_blob ::
  "(PointXYZ \<Rightarrow> Vector4f \<Rightarrow> real) \<Rightarrow> PointCloudT \<Rightarrow> Vector4f \<Rightarrow> real \<Rightarrow> bool"
where
  "filter_blob pdist blob plane_coefficients tolerance =
     (case filter_loop pdist plane_coefficients (points blob) (1000, - 1000) of
        (min_distance, max_distance) \<Rightarrow>
          if min_distance > tolerance then False else True)"

text \<open>The distances of the points of a cluster to the plane, in the order of the
  points.\<close>

definition distances ::
  "(PointXYZ \<Rightarrow> Vector4f \<Rightarrow> real) \<Rightarrow> Vector4f \<Rightarrow> PointT list \<Rightarrow> real list"
where
  "distances pdist plane_coefficients ps =
     map (\<lambda>p. pdist (pt_x p, pt_y p, pt_z p) plane_coefficients) ps"

subsection \<open>Cluster extraction\<close>

text \<open>Lines 224-225: the points of one cluster, copied by index with the unchecked
  \<^verbatim>\<open>in->points[*pit]\<close>; an index beyond the cloud is a fault.\<close>

fun copy_points :: "PointT list \<Rightarrow> nat list \<Rightarrow> error + PointT list" where
  "copy_points ps [] = Inr []"
| "copy_points ps (pit # indices) =
     (if pit < length ps
      then (case copy_points ps indices of
              Inl e \<Rightarrow> Inl e
            | Inr cluster \<Rightarrow> Inr (ps ! pit # cluster))
      else Inl IndexOutOfRange)"

text \<open>Lines 221-231: one new cloud per index list, in the order of the lists. A new
  cloud has the empty frame tag.\<close>

fun build_clusters :: "PointT list \<Rightarrow> nat list list \<Rightarrow> error + PointCloudT list" where
  "build_clusters ps [] = Inr []"
| "build_clusters ps (it # cluster_indices) =
     (case copy_points ps it of
        Inl e \<Rightarrow> Inl e
      | Inr cloud_cluster \<Rightarrow>
          (case build_clusters ps cluster_indices of
             Inl e \<Rightarrow> Inl e
           | Inr clusters \<Rightarrow> Inr (\<lparr>points = cloud_cluster, frame_id = []\<rparr> # clusters)))"

text \<open>Lines 211-218: the index lists the extraction yields as \<^verbatim>\<open>computeClusters\<close>
  configures it, with the size bounds 50 and 25000.\<close>

definition cluster_indices_of :: "pcl \<Rightarrow> PointCloudT \<Rightarrow> real \<Rightarrow> nat list list" where
  "cluster_indices_of lib input tolerance =
     euclideanClusterExtraction lib tolerance 50 25000 (points input)"

text \<open>Lines 205-233, \<^verbatim>\<open>computeClusters\<close>.\<close>

definition computeClusters :: "pcl \<Rightarrow> PointCloudT \<Rightarrow> real \<Rightarrow> error + PointCloudT list" where
  "computeClusters lib input tolerance =
     build_clusters (points input) (cluster_indices_of lib input tolerance)"

subsection \<open>The global state\<close>

text \<open>
  Lines 74-80. The global clouds are shared pointers: the state holds, for each global,
  the address it points to, and a store from addresses to clouds. The assignment
  \<^verbatim>\<open>cloud = cloud_aggregated\<close> of line 302 makes two globals point to one object,
  and every later write through either of them is seen through both.
  \<^verbatim>\<open>published\<close> collects what is sent to the debugging publisher.
\<close>

record state =
  store :: "nat \<Rightarrow> PointCloudT"
  cloud :: nat
  cloud_aggregated :: nat
  cloud_plane :: nat
  cloud_blobs :: nat
  new_cloud_available_flag :: bool
  clusters_on_plane :: "PointCloudT list"
  published :: "PointCloudT list"

text \<open>The state at program start: every global points to a new, empty cloud of its own.\<close>

definition initial_state :: state where
  "initial_state =
     \<lparr>store = (\<lambda>a. \<lparr>points = [], frame_id = []\<rparr>),
      cloud = 0, cloud_aggregated = 1, cloud_plane = 2, cloud_blobs = 3,
      new_cloud_available_flag = False, clusters_on_plane = [], published = []\<rparr>"

text \<open>Writing the points of the object at an address, and appending to them
  (\<^verbatim>\<open>operator+=\<close> of a cloud: the points of the right-hand side, as they are when
  the operation starts, are appended; the frame tag stays).\<close>

definition set_points :: "nat \<Rightarrow> PointT list \<Rightarrow> state \<Rightarrow> state" where
  "set_points a ps s = s\<lparr>store := (store s)(a := (store s a)\<lparr>points := ps\<rparr>)\<rparr>"

definition append_cloud :: "nat \<Rightarrow> nat \<Rightarrow> state \<Rightarrow> state" where
  "append_cloud a b s = set_points a (points (store s a) @ points (store s b)) s"

text \<open>Lines 121-133, \<^verbatim>\<open>cloud_cb\<close>: the frame is converted into the object
  \<^verbatim>\<open>cloud\<close> points to, and the flag is raised.\<close>

definition cloud_cb :: "PointCloudT \<Rightarrow> state \<Rightarrow> state" where
  "cloud_cb input s =
     s\<lparr>store := (store s)(cloud s := input), new_cloud_available_flag := True\<rparr>"

subsection \<open>Frame aggregation\<close>

text \<open>
  One iteration of a polling loop sees whether the node is still running
  (\<^verbatim>\<open>ros::ok()\<close>) and, in \<^verbatim>\<open>ros::spinOnce()\<close>, the frame the subscriber's
  queue of size one delivers to \<^verbatim>\<open>cloud_cb\<close>, if any. The future of the node is a
  list of such iterations; a loop that reaches the end of the list is still blocked.
\<close>

datatype tick = Shutdown | Spin "PointCloudT option"

fun spinOnce :: "PointCloudT option \<Rightarrow> state \<Rightarrow> state" where
  "spinOnce None s = s"
| "spinOnce (Some input) s = cloud_cb input s"

text \<open>Lines 270-288, the loop of \<^verbatim>\<open>waitForCloudK\<close>.\<close>

fun waitForCloudK_loop :: "int \<Rightarrow> int \<Rightarrow> state \<Rightarrow> tick list \<Rightarrow> state option" where
  "waitForCloudK_loop k counter s [] = None"
| "waitForCloudK_loop k counter s (Shutdown # ticks) = Some s"
| "waitForCloudK_loop k counter s (Spin delivered # ticks) =
     (let s1 = spinOnce delivered s in
      if new_cloud_available_flag s1 then
        (let s2 = append_cloud (cloud_aggregated s1) (cloud s1) s1;
             s3 = s2\<lparr>new_cloud_available_flag := False\<rparr>
         in if counter + 1 \<ge> k
            then Some (s3\<lparr>store := (store s3)(cloud_aggregated s3 :=
                     (store s3 (cloud_aggregated s3))
                       \<lparr>frame_id := frame_id (store s3 (cloud s3))\<rparr>)\<rparr>)
            else waitForCloudK_loop k (counter + 1) s3 ticks)
      else waitForCloudK_loop k counter s1 ticks)"

text \<open>Lines 263-290, \<^verbatim>\<open>waitForCloudK\<close>: the aggregate is cleared, then the loop
  runs with the counter at 0. \<open>None\<close>: the call has not returned.\<close>

definition waitForCloudK :: "int \<Rightarrow> state \<Rightarrow> tick list \<Rightarrow> state option" where
  "waitForCloudK k s ticks =
     waitForCloudK_loop k 0 (set_points (cloud_aggregated s) [] s) ticks"

subsection \<open>The detect service\<close>

text \<open>The response of \<^verbatim>\<open>TabletopPerception\<close>, and the response the service layer
  hands to the callback.\<close>

record Response =
  res_is_plane_found :: bool
  res_cloud_plane :: PointCloudT
  res_cloud_plane_coef :: Vector4f
  res_cloud_clusters :: "PointCloudT list"

definition default_response :: Response where
  "default_response =
     \<lparr>res_is_plane_found = False, res_cloud_plane = \<lparr>points = [], frame_id = []\<rparr>,
      res_cloud_plane_coef = (0, 0, 0, 0), res_cloud_clusters = []\<rparr>"

text \<open>How a call of \<^verbatim>\<open>seg_cb\<close> ends: it has not returned, it has faulted, or it
  has returned a value with the response and the globals as it leaves them.\<close>

datatype result = Blocked | Fault error | Returned bool Response state

text \<open>Lines 367-369 and 436-438: the cloud of blobs is published with the frame tag
  of \<^verbatim>\<open>cloud\<close>.\<close>

definition publish_blobs :: "state \<Rightarrow> state" where
  "publish_blobs s =
     s\<lparr>published := published s @
          [(store s (cloud_blobs s))\<lparr>frame_id := frame_id (store s (cloud s))\<rparr>]\<rparr>"

text \<open>Lines 307-311: the range filter on z, from 0.0 to 1.0, in place on
  \<^verbatim>\<open>cloud\<close>.\<close>

definition range_filter :: "pcl \<Rightarrow> state \<Rightarrow> state" where
  "range_filter lib s =
     set_points (cloud s) (passThrough lib 0 1 (points (store s (cloud s)))) s"

text \<open>Lines 314-318: the voxel filter with leaf size 0.005 writes the new cloud
  \<^verbatim>\<open>cloud_filtered\<close>, which takes the header of its input.\<close>

definition cloud_filtered :: "pcl \<Rightarrow> state \<Rightarrow> PointCloudT" where
  "cloud_filtered lib s =
     (store s (cloud s))\<lparr>points := voxelGrid lib 0.005 (points (store s (cloud s)))\<rparr>"

text \<open>
  Binary floating point, round to nearest, ties to even: \<open>round_binary p x\<close> is the
  value nearest to \<open>x\<close> among those with a significand of \<open>p\<close> bits; \<open>p\<close> is 53 for a
  \<^verbatim>\<open>double\<close> and 24 for a \<^verbatim>\<open>float\<close>. The exponent is not bounded: the sums
  of lines 373-375, of a float and 0.1 or 0.5, neither overflow nor fall below the normal
  range.
\<close>

definition pow2 :: "int \<Rightarrow> real" where
  "pow2 e = (if 0 \<le> e then 2 ^ nat e else 1 / 2 ^ nat (- e))"

definition round_to_even :: "real \<Rightarrow> int" where
  "round_to_even y =
     (if y - of_int \<lfloor>y\<rfloor> < 1/2 then \<lfloor>y\<rfloor>
      else if y - of_int \<lfloor>y\<rfloor> > 1/2 then \<lfloor>y\<rfloor> + 1
      else if even \<lfloor>y\<rfloor> then \<lfloor>y\<rfloor> else \<lfloor>y\<rfloor> + 1)"

definition round_binary :: "nat \<Rightarrow> real \<Rightarrow> real" where
  "round_binary p x =
     (if x = 0 then 0
      else let ulp = pow2 (\<lfloor>log 2 \<bar>x\<bar>\<rfloor> - int p + 1)
           in of_int (round_to_even (x / ulp)) * ulp)"

definition to_double :: "real \<Rightarrow> real" where
  "to_double x = round_binary 53 x"

definition to_float :: "real \<Rightarrow> real" where
  "to_float x = round_binary 24 x"

text \<open>
  Lines 372-376: the coefficient vector with the offsets added. Each of the first three
  components is a float value plus a double literal: the sum is formed in double
  precision and narrowed to the float component of the \<^verbatim>\<open>Eigen::Vector4f\<close>. The
  fourth is copied.
\<close>

definition plane_coefficients_of :: "real list \<Rightarrow> Vector4f" where
  "plane_coefficients_of values =
     (to_float (to_double (values ! 0 + to_double 0.1)),
      to_float (to_double (values ! 1 + to_double 0.5)),
      to_float (to_double (values ! 2 + to_double 0.1)),
      values ! 3)"

text \<open>Lines 372-438: what \<^verbatim>\<open>seg_cb\<close> does once the plane is found and the
  foreground is in \<^verbatim>\<open>cloud_blobs\<close>. Reading \<^verbatim>\<open>coefficients->values\<close> beyond
  its end is a fault.\<close>

definition report_clusters ::
  "pcl \<Rightarrow> PointCloudT \<Rightarrow> real list \<Rightarrow> state \<Rightarrow> Response \<Rightarrow> result"
where
  "report_clusters lib filtered values s res =
     (if length values < 4 then Fault IndexOutOfRange
      else
        let plane_coefficients = plane_coefficients_of values in
        case computeClusters lib (store s (cloud_blobs s)) 0.04 of
          Inl e \<Rightarrow> Fault e
        | Inr clusters \<Rightarrow>
            let s1 = s\<lparr>clusters_on_plane := []\<rparr>;
                s2 = s1\<lparr>store := (store s1)(cloud_plane s1 :=
                        filtered\<lparr>points :=
                          cropBox lib (0, 0, 0, 1) plane_coefficients (points filtered)\<rparr>)\<rparr>;
                s3 = s2\<lparr>clusters_on_plane :=
                        filter (\<lambda>blob. filter_blob (pointToPlaneDistance lib) blob
                                  plane_coefficients plane_distance_tolerance) clusters\<rparr>;
                tag = frame_id (store s3 (cloud s3));
                res1 = res\<lparr>res_is_plane_found := True,
                          res_cloud_plane := (store s3 (cloud_plane s3))\<lparr>frame_id := tag\<rparr>,
                          res_cloud_plane_coef := plane_coefficients,
                          res_cloud_clusters := res_cloud_clusters res @
                            map (\<lambda>blob. blob\<lparr>frame_id := tag\<rparr>) (clusters_on_plane s3)\<rparr>;
                s4 = set_points (cloud_blobs s3) (concat (map points (clusters_on_plane s3))) s3
            in Returned True res1 (publish_blobs s4))"

text \<open>Lines 304-441: \<^verbatim>\<open>seg_cb\<close> after the aggregation.\<close>

definition segment_cloud :: "pcl \<Rightarrow> state \<Rightarrow> Response \<Rightarrow> result" where
  "segment_cloud lib s res =
     (let s1 = range_filter lib s;
          filtered = cloud_filtered lib s1
      in case segment lib (points filtered) of
        (inliers, values) \<Rightarrow>
          (case extractIndices lib (points filtered) inliers False of
             Inl e \<Rightarrow> Fault e
           | Inr plane \<Rightarrow>
               let s2 = s1\<lparr>store := (store s1)(cloud_plane s1 := filtered\<lparr>points := plane\<rparr>)\<rparr>
               in if points (store s2 (cloud_plane s2)) = []
                  then Returned True (res\<lparr>res_is_plane_found := False\<rparr>) s2
                  else
                    (case extractIndices lib (points filtered) inliers True of
                       Inl e \<Rightarrow> Fault e
                     | Inr blobs \<Rightarrow>
                         let s3 = s2\<lparr>store := (store s2)(cloud_blobs s2 :=
                                        filtered\<lparr>points := blobs\<rparr>)\<rparr>
                         in report_clusters lib filtered values (publish_blobs s3) res)))"

text \<open>Lines 298-441, \<^verbatim>\<open>seg_cb\<close>: fifteen frames are aggregated, the global
  \<^verbatim>\<open>cloud\<close> is made to point to the aggregate, and the aggregate is segmented.\<close>

definition seg_cb :: "pcl \<Rightarrow> state \<Rightarrow> tick list \<Rightarrow> Response \<Rightarrow> result" where
  "seg_cb lib s ticks res =
     (case waitForCloudK 15 s ticks of
        None \<Rightarrow> Blocked
      | Some s1 \<Rightarrow> segment_cloud lib (s1\<lparr>cloud := cloud_aggregated s1\<rparr>) res)"

text \<open>The future in which every iteration of the polling loop delivers the next of
  the given frames.\<close>

definition deliver :: "PointCloudT list \<Rightarrow> tick list" where
  "deliver frames = map (\<lambda>f. Spin (Some f)) frames"

text \<open>The voxel-filtered cloud of a request: \<^verbatim>\<open>cloud_filtered\<close> as line 318
  leaves it, when the aggregation (line 301) has returned the state \<open>s1\<close>.\<close>

definition filtered_cloud_of :: "pcl \<Rightarrow> state \<Rightarrow> PointCloudT" where
  "filtered_cloud_of lib s1 =
     cloud_filtered lib (range_filter lib (s1\<lparr>cloud := cloud_aggregated s1\<rparr>))"

definition filtered_input :: "pcl \<Rightarrow> state \<Rightarrow> tick list \<Rightarrow> PointCloudT option" where
  "filtered_input lib s ticks = map_option (filtered_cloud_of lib) (waitForCloudK 15 s ticks)"

text \<open>The response, the final state and the value of a call that has returned.\<close>

fun response_of :: "result \<Rightarrow> Response option" where
  "response_of (Returned ok res s) = Some res"
| "response_of other = None"

fun state_of :: "result \<Rightarrow> state option" where
  "state_of (Returned ok res s) = Some s"
| "state_of other = None"

fun value_of :: "result \<Rightarrow> bool option" where
  "value_of (Returned ok res s) = Some ok"
| "value_of other = None"

subsection \<open>The library operations as the specification describes them\<close>

text \<open>
  Modelled from the spec: \<^verbatim>\<open>pcl::PassThrough\<close> is library code, not part of the
  repository. Section 4.2 (range filter): retain only the points whose coordinate lies
  in \<open>[zMin, zMax]\<close>, order preserved.
\<close>

definition spec_passThrough :: "real \<Rightarrow> real \<Rightarrow> PointT list \<Rightarrow> PointT list" where
  "spec_passThrough zMin zMax ps = filter (\<lambda>p. zMin \<le> pt_z p \<and> pt_z p \<le> zMax) ps"

text \<open>
  Modelled from the spec: \<^verbatim>\<open>pcl::VoxelGrid\<close> is library code, not part of the
  repository. Section 4.2 (voxel downsample): space is partitioned into a uniform grid
  of edge length \<open>L\<close>, and all points that fall in one voxel are replaced by a single
  representative, the centroid of their positions with the average of their colours.
  The voxels are listed in the order of their last point.
\<close>

definition voxel_of :: "real \<Rightarrow> PointT \<Rightarrow> int \<times> int \<times> int" where
  "voxel_of L p = (\<lfloor>pt_x p / L\<rfloor>, \<lfloor>pt_y p / L\<rfloor>, \<lfloor>pt_z p / L\<rfloor>)"

definition centroid :: "PointT list \<Rightarrow> PointT" where
  "centroid ps =
     \<lparr>pt_x = sum_list (map pt_x ps) / real (length ps),
      pt_y = sum_list (map pt_y ps) / real (length ps),
      pt_z = sum_list (map pt_z ps) / real (length ps),
      pt_r = of_nat (sum_list (map (\<lambda>p. unat (pt_r p)) ps) div length ps),
      pt_g = of_nat (sum_list (map (\<lambda>p. unat (pt_g p)) ps) div length ps),
      pt_b = of_nat (sum_list (map (\<lambda>p. unat (pt_b p)) ps) div length ps)\<rparr>"

definition spec_voxelGrid :: "real \<Rightarrow> PointT list \<Rightarrow> PointT list" where
  "spec_voxelGrid L ps =
     map (\<lambda>v. centroid (filter (\<lambda>p. voxel_of L p = v) ps)) (remdups (map (voxel_of L) ps))"

text \<open>
  Modelled from the spec: \<^verbatim>\<open>pcl::ExtractIndices\<close> is library code, not part of the
  repository. Section 4.3 (partition): with \<open>negative = False\<close> the output is the points
  at the given indices; with \<open>negative = True\<close> it is all remaining points, in the order
  of the input. An index beyond the cloud is a fault.
\<close>

definition spec_extractIndices :: "PointT list \<Rightarrow> nat list \<Rightarrow> bool \<Rightarrow> error + PointT list"
where
  "spec_extractIndices ps indices negative =
     (if list_ex (\<lambda>i. length ps \<le> i) indices then Inl IndexOutOfRange
      else if negative
        then Inr (map (\<lambda>i. ps ! i) (filter (\<lambda>i. i \<notin> set indices) [0..<length ps]))
        else Inr (map (\<lambda>i. ps ! i) indices))"

text \<open>
  Modelled from the spec: \<^verbatim>\<open>pcl::CropBox\<close> is library code, not part of the
  repository. Section 4.6: the points inside the axis-aligned box between the corners
  \<open>min_pt\<close> and \<open>max_pt\<close>, of which the first three components are the bounds; order
  preserved.
\<close>

definition spec_cropBox :: "Vector4f \<Rightarrow> Vector4f \<Rightarrow> PointT list \<Rightarrow> PointT list" where
  "spec_cropBox min_pt max_pt ps =
     (case min_pt of (x0, y0, z0, w0) \<Rightarrow>
        case max_pt of (x1, y1, z1, w1) \<Rightarrow>
          filter (\<lambda>p. x0 \<le> pt_x p \<and> pt_x p \<le> x1 \<and> y0 \<le> pt_y p \<and> pt_y p \<le> y1 \<and>
                      z0 \<le> pt_z p \<and> pt_z p \<le> z1) ps)"

text \<open>
  Modelled from the spec: \<^verbatim>\<open>pcl::EuclideanClusterExtraction\<close> is library code, not
  part of the repository. Section 4.4: connected-component extraction over the point
  indices, where two points are connected iff their Euclidean distance is at most the
  tolerance; components whose size is outside \<open>[minSize, maxSize]\<close> are discarded; the
  surviving components are returned in the order the search discovers them.

  \<open>grow\<close> is the search for one component: it takes the next index of the queue, moves
  the unvisited indices connected to it to the end of the queue, and goes on.
  \<open>components\<close> starts a search from the first index that no earlier search has reached.
\<close>

definition euclideanDistance :: "PointT \<Rightarrow> PointT \<Rightarrow> real" where
  "euclideanDistance p q =
     sqrt ((pt_x p - pt_x q)\<^sup>2 + (pt_y p - pt_y q)\<^sup>2 + (pt_z p - pt_z q)\<^sup>2)"

definition connected :: "real \<Rightarrow> PointT list \<Rightarrow> nat \<Rightarrow> nat \<Rightarrow> bool" where
  "connected tolerance ps i j \<longleftrightarrow> euclideanDistance (ps ! i) (ps ! j) \<le> tolerance"

function grow :: "(nat \<Rightarrow> nat \<Rightarrow> bool) \<Rightarrow> nat list \<Rightarrow> nat list \<Rightarrow> nat list" where
  "grow adj [] unvisited = []"
| "grow adj (i # queue) unvisited =
     i # grow adj (queue @ filter (adj i) unvisited) (filter (\<lambda>j. \<not> adj i j) unvisited)"
  by pat_completeness auto
termination
proof (relation "measure (\<lambda>(adj, queue, unvisited). length queue + length unvisited)")
  show "wf (measure (\<lambda>(adj, queue, unvisited). length queue + length unvisited))"
    by simp
next
  fix adj :: "nat \<Rightarrow> nat \<Rightarrow> bool" and i :: nat and queue unvisited :: "nat list"
  have "length (filter (adj i) unvisited) + length (filter (\<lambda>j. \<not> adj i j) unvisited)
          = length unvisited"
    by (rule sum_length_filter_compl)
  then show "((adj, queue @ filter (adj i) unvisited, filter (\<lambda>j. \<not> adj i j) unvisited),
              (adj, i # queue, unvisited))
             \<in> measure (\<lambda>(adj, queue, unvisited). length queue + length unvisited)"
    by simp
qed

function components :: "(nat \<Rightarrow> nat \<Rightarrow> bool) \<Rightarrow> nat list \<Rightarrow> nat list list" where
  "components adj [] = []"
| "components adj (i # unprocessed) =
     grow adj [i] unprocessed #
     components adj (filter (\<lambda>j. j \<notin> set (grow adj [i] unprocessed)) unprocessed)"
  by pat_completeness auto
termination
  by (relation "measure (\<lambda>(adj, unprocessed). length unprocessed)")
     (auto simp: less_Suc_eq_le)

definition spec_euclideanClusterExtraction ::
  "real \<Rightarrow> nat \<Rightarrow> nat \<Rightarrow> PointT list \<Rightarrow> nat list list"
where
  "spec_euclideanClusterExtraction tolerance minSize maxSize ps =
     filter (\<lambda>c. minSize \<le> length c \<and> length c \<le> maxSize)
       (components (connected tolerance ps) [0..<length ps])"

text \<open>The graph the clustering works on: the indices of the cloud, with an edge between
  two indices iff the Euclidean distance of their points is at most the tolerance.\<close>

definition proximity_graph :: "real \<Rightarrow> PointT list \<Rightarrow> (nat \<times> nat) set" where
  "proximity_graph tolerance ps =
     {(i, j). i < length ps \<and> j < length ps \<and> connected tolerance ps i j}"

text \<open>The edges of a relation \<open>adj\<close> between the members of \<open>V\<close>.\<close>

definition edges_within :: "(nat \<Rightarrow> nat \<Rightarrow> bool) \<Rightarrow> nat set \<Rightarrow> (nat \<times> nat) set" where
  "edges_within adj V = {(a, b). a \<in> V \<and> b \<in> V \<and> adj a b}"

text \<open>
  Modelled from the spec: \<^verbatim>\<open>pcl::pointToPlaneDistance\<close> is library code, not part
  of the repository. Section 4.5 describes it as the signed distance to the implicit
  plane \<open>a x + b y + c z + d = 0\<close> of the model.
\<close>

definition signedPlaneDistance :: "PointXYZ \<Rightarrow> Vector4f \<Rightarrow> real" where
  "signedPlaneDistance p plane_coefficients =
     (case p of (px, py, pz) \<Rightarrow>
        case plane_coefficients of (a, b, c, d) \<Rightarrow> a * px + b * py + c * pz + d)"



text \<open>The library with these operations, around a given plane estimator.\<close>

definition spec_pcl :: "(PointT list \<Rightarrow> nat list \<times> real list) \<Rightarrow> pcl" where
  "spec_pcl estimator =
     \<lparr>passThrough = spec_passThrough, voxelGrid = spec_voxelGrid, segment = estimator,
      extractIndices = spec_extractIndices, cropBox = spec_cropBox,
      euclideanClusterExtraction = spec_euclideanClusterExtraction,
      pointToPlaneDistance = signedPlaneDistance\<rparr>"

subsection \<open>Concrete inputs\<close>

text \<open>A point with the given position (and black colour), and a cloud with the given
  points.\<close>

definition point_at :: "real \<Rightarrow> real \<Rightarrow> real \<Rightarrow> PointT" where
  "point_at px py pz = \<lparr>pt_x = px, pt_y = py, pt_z = pz, pt_r = 0, pt_g = 0, pt_b = 0\<rparr>"

definition cloud_of :: "PointT list \<Rightarrow> PointCloudT" where
  "cloud_of ps = \<lparr>points = ps, frame_id = ''camera''\<rparr>"

text \<open>
  Fifteen frames, each with the one point \<open>(0, 0, 0.5)\<close>; an estimator that reports the
  plane \<open>z - 0.5 = 0\<close> with the first point as its inlier, and one that reports no plane.
  \<open>state15\<close> is the state in which the first aggregation leaves the globals.
\<close>

definition frame0 :: PointCloudT where
  "frame0 = cloud_of [point_at 0 0 (1/2)]"

definition frames15 :: "PointCloudT list" where
  "frames15 = [frame0, frame0, frame0, frame0, frame0, frame0, frame0, frame0, frame0, frame0,
               frame0, frame0, frame0, frame0, frame0]"

definition lib0 :: pcl where
  "lib0 = spec_pcl (\<lambda>ps. ([0], [0, 0, 1, - (1/2)]))"

definition lib_no_plane :: pcl where
  "lib_no_plane = spec_pcl (\<lambda>ps. ([], []))"

definition state15 :: state where
  "state15 =
     initial_state\<lparr>store := (store initial_state)(cloud initial_state := last frames15,
                      cloud_aggregated initial_state :=
                        (store initial_state (cloud_aggregated initial_state))
                          \<lparr>points := concat (map points frames15),
                           frame_id := frame_id (last frames15)\<rparr>),
                   new_cloud_available_flag := False\<rparr>"






text \<open>A cloud of fifty points at one position, for a concrete cluster.\<close>

definition cloud50 :: PointCloudT where
  "cloud50 = cloud_of (replicate 50 (point_at 0 0 (1/2)))"

subsection \<open>Facts about the proximity filter\<close>

lemma filter_loop_min:
  "fst (filter_loop pdist c ps (mn, mx)) = Min (insert mn (set (distances pdist c ps)))"
proof (induction ps arbitrary: mn mx)
  case Nil
  show ?case by (simp add: distances_def)
next
  case (Cons p ps)
  let ?d = "pdist (pt_x p, pt_y p, pt_z p) c"
  let ?D = "set (distances pdist c ps)"
  have fin: "finite ?D" by simp
  have step: "fst (filter_loop pdist c (p # ps) (mn, mx)) = Min (insert (min ?d mn) ?D)"
    using Cons.IH [of "if ?d < mn then ?d else mn" "if ?d > mx then ?d else mx"]
    by (simp add: Let_def min_def)
  have "Min (insert (min ?d mn) ?D) = Min (insert mn (insert ?d ?D))"
  proof (cases "?D = {}")
    case True
    then show ?thesis by (simp add: min.commute)
  next
    case False
    with fin show ?thesis by (simp add: min.assoc min.commute min.left_commute)
  qed
  with step show ?case by (simp add: distances_def)
qed

lemma filter_blob_tracked:
  "filter_blob pdist blob c tol \<longleftrightarrow>
     Min (insert 1000 (set (distances pdist c (points blob)))) \<le> tol"
proof -
  obtain mn mx where l: "filter_loop pdist c (points blob) (1000, - 1000) = (mn, mx)"
    by (cases "filter_loop pdist c (points blob) (1000, - 1000)")
  have acc: "filter_blob pdist blob c tol \<longleftrightarrow> mn \<le> tol"
    using l by (simp add: filter_blob_def not_less)
  have "mn = Min (insert 1000 (set (distances pdist c (points blob))))"
    using filter_loop_min [of pdist c "points blob" 1000 "- 1000"] l by simp
  with acc show ?thesis by (simp only:)
qed

lemma filter_blob_exists:
  "filter_blob pdist blob c tol \<longleftrightarrow>
     1000 \<le> tol \<or> (\<exists>d \<in> set (distances pdist c (points blob)). d \<le> tol)"
proof -
  let ?D = "set (distances pdist c (points blob))"
  have "Min (insert 1000 ?D) \<le> tol \<longleftrightarrow> (\<exists>d \<in> insert 1000 ?D. d \<le> tol)"
    by (rule Min_le_iff) simp_all
  then show ?thesis by (auto simp: filter_blob_tracked)
qed

text \<open>
  C2. For every cluster and every plane model, at the tolerance \<^verbatim>\<open>seg_cb\<close> passes
  (line 398, the global 0.09), \<^verbatim>\<open>filter\<close> computes for every point of the cluster
  the signed distance to the implicit plane of the model, tracks the minimum, and
  accepts exactly when the cluster has a point and that minimum is at most the tolerance.
  The same holds for whatever distance the library function computes, at every tolerance
  below the initial value 1000.0 of \<^verbatim>\<open>min_distance\<close>.
\<close>

theorem filter_accepts_iff_min_signed_distance_within_tolerance:
  "(filter_blob signedPlaneDistance blob c plane_distance_tolerance \<longleftrightarrow>
      points blob \<noteq> [] \<and>
      Min (set (map (\<lambda>p. signedPlaneDistance (pt_x p, pt_y p, pt_z p) c) (points blob)))
        \<le> plane_distance_tolerance) \<and>
   (tol < 1000 \<longrightarrow>
      (filter_blob pdist blob c tol \<longleftrightarrow>
         points blob \<noteq> [] \<and> Min (set (distances pdist c (points blob))) \<le> tol))"
proof -
  have general: "filter_blob pdist blob c tol \<longleftrightarrow>
          points blob \<noteq> [] \<and> Min (set (distances pdist c (points blob))) \<le> tol"
    if "tol < 1000" for pdist and tol :: real
  proof (cases "points blob = []")
    case True
    with that show ?thesis by (simp add: filter_blob_exists distances_def)
  next
    case False
    let ?D = "set (distances pdist c (points blob))"
    from False have ne: "?D \<noteq> {}" by (simp add: distances_def)
    have "Min ?D \<le> tol \<longleftrightarrow> (\<exists>d \<in> ?D. d \<le> tol)"
      using ne by (intro Min_le_iff) simp_all
    with that False show ?thesis by (simp add: filter_blob_exists)
  qed
  have "plane_distance_tolerance < 1000" by (simp add: plane_distance_tolerance_def)
  from general [OF this, of signedPlaneDistance] general show ?thesis
    by (simp add: distances_def)
qed

theorem filter_accepts_iff_min_signed_distance_within_tolerance_witness:
  "filter_blob signedPlaneDistance (cloud_of [point_at 0 0 (1/20), point_at 0 0 50])
     (0, 0, 1, 0) plane_distance_tolerance \<and>
   Min (set (map (\<lambda>p. signedPlaneDistance (pt_x p, pt_y p, pt_z p) (0, 0, 1, 0))
               [point_at 0 0 (1/20), point_at 0 0 50])) = 1/20 \<and>
   \<not> filter_blob signedPlaneDistance (cloud_of [point_at 0 0 50]) (0, 0, 1, 0)
       plane_distance_tolerance \<and>
   filter_blob signedPlaneDistance (cloud_of [point_at 0 0 (- 5)]) (0, 0, 1, 0)
     plane_distance_tolerance \<and>
   signedPlaneDistance (0, 0, - 5) (0, 0, 1, 0) = - 5"
  using filter_accepts_iff_min_signed_distance_within_tolerance
          [of "cloud_of [point_at 0 0 (1/20), point_at 0 0 50]" "(0, 0, 1, 0)" 0 signedPlaneDistance]
        filter_accepts_iff_min_signed_distance_within_tolerance
          [of "cloud_of [point_at 0 0 50]" "(0, 0, 1, 0)" 0 signedPlaneDistance]
        filter_accepts_iff_min_signed_distance_within_tolerance
          [of "cloud_of [point_at 0 0 (- 5)]" "(0, 0, 1, 0)" 0 signedPlaneDistance]
  by (simp add: plane_distance_tolerance_def cloud_of_def point_at_def distances_def
      signedPlaneDistance_def)

text \<open>
  C8 (amended). For every plane model and every tolerance below the sentinel 1000.0 (in
  particular the default 0.09), \<^verbatim>\<open>filter\<close> rejects a cluster with no point: the
  tracked minimum keeps its initial value 1000.0, which is above the tolerance.
\<close>

theorem filter_rejects_empty_cluster:
  "points blob = [] \<Longrightarrow> tol < 1000 \<Longrightarrow> \<not> filter_blob pdist blob c tol"
  by (simp add: filter_blob_def)

theorem filter_rejects_empty_cluster_witness:
  "points (cloud_of []) = [] \<and> plane_distance_tolerance < 1000 \<and>
   \<not> filter_blob signedPlaneDistance (cloud_of []) (0, 0, 1, 0) plane_distance_tolerance"
  using filter_rejects_empty_cluster
    [of "cloud_of []" plane_distance_tolerance signedPlaneDistance "(0, 0, 1, 0)"]
  by (simp add: cloud_of_def plane_distance_tolerance_def)

text \<open>
  C8 as stated, for every tolerance, fails: at tolerance 1000 the cluster with no point
  is accepted, since the source has no guard for it.
\<close>

theorem filter_empty_cluster_counterexample:
  "filter_blob signedPlaneDistance (cloud_of []) (0, 0, 1, 0) 1000"
  by (simp add: filter_blob_def cloud_of_def)

text \<open>
  C10. The result of \<^verbatim>\<open>filter\<close> depends only on whether some point of the cluster
  is within the tolerance of the plane: two clusters that agree on that get the same
  answer; the initial value of \<^verbatim>\<open>max_distance\<close>, and with it the tracked maximum,
  has no effect on the tracked minimum that is tested; and a cluster with one point
  within the tolerance is accepted, however far its other points are.
\<close>

theorem filter_depends_only_on_a_point_within_tolerance:
  "(((\<exists>d \<in> set (distances pdist c (points blob1)). d \<le> tol) \<longleftrightarrow>
     (\<exists>d \<in> set (distances pdist c (points blob2)). d \<le> tol)) \<longrightarrow>
    filter_blob pdist blob1 c tol = filter_blob pdist blob2 c tol) \<and>
   (filter_blob pdist blob1 c tol \<longleftrightarrow>
      fst (filter_loop pdist c (points blob1) (1000, mx)) \<le> tol) \<and>
   ((\<exists>p \<in> set (points blob1). pdist (pt_x p, pt_y p, pt_z p) c \<le> tol) \<longrightarrow>
    filter_blob pdist blob1 c tol)"
proof (intro conjI impI)
  assume "(\<exists>d \<in> set (distances pdist c (points blob1)). d \<le> tol) \<longleftrightarrow>
          (\<exists>d \<in> set (distances pdist c (points blob2)). d \<le> tol)"
  then show "filter_blob pdist blob1 c tol = filter_blob pdist blob2 c tol"
    by (simp only: filter_blob_exists)
next
  show "filter_blob pdist blob1 c tol \<longleftrightarrow>
          fst (filter_loop pdist c (points blob1) (1000, mx)) \<le> tol"
    by (simp only: filter_blob_tracked filter_loop_min)
next
  assume "\<exists>p \<in> set (points blob1). pdist (pt_x p, pt_y p, pt_z p) c \<le> tol"
  then have "\<exists>d \<in> set (distances pdist c (points blob1)). d \<le> tol"
    by (simp add: distances_def)
  then show "filter_blob pdist blob1 c tol"
    by (simp only: filter_blob_exists) simp
qed

theorem filter_depends_only_on_a_point_within_tolerance_witness:
  "filter_blob signedPlaneDistance (cloud_of [point_at 0 0 (1/20), point_at 0 0 50])
     (0, 0, 1, 0) (9/100) \<and>
   filter_blob signedPlaneDistance (cloud_of [point_at 0 0 (1/20)]) (0, 0, 1, 0) (9/100) \<and>
   fst (filter_loop signedPlaneDistance (0, 0, 1, 0) [point_at 0 0 (1/20), point_at 0 0 50]
         (1000, 7)) \<le> 9/100"
  using filter_depends_only_on_a_point_within_tolerance
    [of signedPlaneDistance "(0, 0, 1, 0)" "cloud_of [point_at 0 0 (1/20), point_at 0 0 50]"
        "9/100" "cloud_of [point_at 0 0 (1/20)]" 7]
  by (simp add: Let_def filter_blob_def cloud_of_def point_at_def distances_def signedPlaneDistance_def)

subsection \<open>Facts about the aggregation\<close>

text \<open>
  While \<^verbatim>\<open>cloud\<close> and \<^verbatim>\<open>cloud_aggregated\<close> point to different objects, the
  loop appends each delivered frame to the aggregate. Once they point to the same object,
  \<^verbatim>\<open>cloud_cb\<close> overwrites the aggregate with each new frame and the loop appends
  the aggregate to itself.
\<close>

lemma waitForCloudK_loop_unaliased:
  assumes "cloud s \<noteq> cloud_aggregated s" and "frames \<noteq> []"
    and "counter + int (length frames) = k"
  shows "waitForCloudK_loop k counter s (deliver frames) =
     Some (s\<lparr>store := (store s)(cloud s := last frames,
                 cloud_aggregated s :=
                   (store s (cloud_aggregated s))
                     \<lparr>points := points (store s (cloud_aggregated s)) @ concat (map points frames),
                      frame_id := frame_id (last frames)\<rparr>),
              new_cloud_available_flag := False\<rparr>)"
  using assms
proof (induction frames arbitrary: s counter)
  case Nil
  then show ?case by simp
next
  case (Cons f fs)
  show ?case
  proof (cases "fs = []")
    case True
    with Cons.prems show ?thesis
      by (auto simp add: deliver_def cloud_cb_def append_cloud_def set_points_def Let_def fun_eq_iff)
  next
    case False
    let ?s3 = "(append_cloud (cloud_aggregated (cloud_cb f s)) (cloud (cloud_cb f s)) (cloud_cb f s))
                 \<lparr>new_cloud_available_flag := False\<rparr>"
    have ptr: "cloud ?s3 = cloud s" "cloud_aggregated ?s3 = cloud_aggregated s"
      by (simp_all add: cloud_cb_def append_cloud_def set_points_def)
    from False Cons.prems have notyet: "\<not> counter + 1 \<ge> k"
      by (cases fs) auto
    have step: "waitForCloudK_loop k counter s (deliver (f # fs)) =
                waitForCloudK_loop k (counter + 1) ?s3 (deliver fs)"
      using notyet by (simp add: deliver_def cloud_cb_def Let_def)
    have rec: "waitForCloudK_loop k (counter + 1) ?s3 (deliver fs) =
       Some (?s3\<lparr>store := (store ?s3)(cloud ?s3 := last fs,
                 cloud_aggregated ?s3 :=
                   (store ?s3 (cloud_aggregated ?s3))
                     \<lparr>points := points (store ?s3 (cloud_aggregated ?s3)) @ concat (map points fs),
                      frame_id := frame_id (last fs)\<rparr>),
              new_cloud_available_flag := False\<rparr>)"
      using Cons.prems False by (intro Cons.IH) (simp_all add: ptr)
    have fin: "Some (?s3\<lparr>store := (store ?s3)(cloud ?s3 := last fs,
                 cloud_aggregated ?s3 :=
                   (store ?s3 (cloud_aggregated ?s3))
                     \<lparr>points := points (store ?s3 (cloud_aggregated ?s3)) @ concat (map points fs),
                      frame_id := frame_id (last fs)\<rparr>),
              new_cloud_available_flag := False\<rparr>) = Some (s\<lparr>store := (store s)(cloud s := last (f # fs),
                 cloud_aggregated s :=
                   (store s (cloud_aggregated s))
                     \<lparr>points := points (store s (cloud_aggregated s)) @ concat (map points (f # fs)),
                      frame_id := frame_id (last (f # fs))\<rparr>),
              new_cloud_available_flag := False\<rparr>)"
      using Cons.prems(1) False
      by (auto simp add: cloud_cb_def append_cloud_def set_points_def fun_eq_iff)
    show ?thesis by (simp only: step rec fin)
  qed
qed

lemma waitForCloudK_loop_aliased:
  assumes "cloud s = cloud_aggregated s" and "frames \<noteq> []"
    and "counter + int (length frames) = k"
  shows "waitForCloudK_loop k counter s (deliver frames) =
     Some (s\<lparr>store := (store s)(cloud s :=
                 (last frames)\<lparr>points := points (last frames) @ points (last frames)\<rparr>),
              new_cloud_available_flag := False\<rparr>)"
  using assms
proof (induction frames arbitrary: s counter)
  case Nil
  then show ?case by simp
next
  case (Cons f fs)
  show ?case
  proof (cases "fs = []")
    case True
    with Cons.prems show ?thesis
      by (auto simp add: deliver_def cloud_cb_def append_cloud_def set_points_def Let_def fun_eq_iff)
  next
    case False
    let ?s3 = "(append_cloud (cloud_aggregated (cloud_cb f s)) (cloud (cloud_cb f s)) (cloud_cb f s))
                 \<lparr>new_cloud_available_flag := False\<rparr>"
    have ptr: "cloud ?s3 = cloud s" "cloud_aggregated ?s3 = cloud_aggregated s"
      by (simp_all add: cloud_cb_def append_cloud_def set_points_def)
    from False Cons.prems have notyet: "\<not> counter + 1 \<ge> k"
      by (cases fs) auto
    have step: "waitForCloudK_loop k counter s (deliver (f # fs)) =
                waitForCloudK_loop k (counter + 1) ?s3 (deliver fs)"
      using notyet by (simp add: deliver_def cloud_cb_def Let_def)
    have rec: "waitForCloudK_loop k (counter + 1) ?s3 (deliver fs) =
       Some (?s3\<lparr>store := (store ?s3)(cloud ?s3 :=
                 (last fs)\<lparr>points := points (last fs) @ points (last fs)\<rparr>),
              new_cloud_available_flag := False\<rparr>)"
      using Cons.prems False by (intro Cons.IH) (simp_all add: ptr)
    have fin: "Some (?s3\<lparr>store := (store ?s3)(cloud ?s3 :=
                 (last fs)\<lparr>points := points (last fs) @ points (last fs)\<rparr>),
              new_cloud_available_flag := False\<rparr>) =
          Some (s\<lparr>store := (store s)(cloud s :=
                 (last (f # fs))\<lparr>points := points (last (f # fs)) @ points (last (f # fs))\<rparr>),
              new_cloud_available_flag := False\<rparr>)"
      using Cons.prems(1) False
      by (auto simp add: cloud_cb_def append_cloud_def set_points_def fun_eq_iff)
    show ?thesis by (simp only: step rec fin)
  qed
qed

lemma waitForCloudK_unaliased:
  assumes "cloud s \<noteq> cloud_aggregated s" and "frames \<noteq> []" and "k = int (length frames)"
  shows "waitForCloudK k s (deliver frames) =
     Some (s\<lparr>store := (store s)(cloud s := last frames,
                 cloud_aggregated s :=
                   (store s (cloud_aggregated s))
                     \<lparr>points := concat (map points frames),
                      frame_id := frame_id (last frames)\<rparr>),
              new_cloud_available_flag := False\<rparr>)"
proof -
  let ?s0 = "set_points (cloud_aggregated s) [] s"
  have ptr: "cloud ?s0 = cloud s" "cloud_aggregated ?s0 = cloud_aggregated s"
    by (simp_all add: set_points_def)
  have "waitForCloudK_loop k 0 ?s0 (deliver frames) =
     Some (?s0\<lparr>store := (store ?s0)(cloud ?s0 := last frames,
                 cloud_aggregated ?s0 :=
                   (store ?s0 (cloud_aggregated ?s0))
                     \<lparr>points := points (store ?s0 (cloud_aggregated ?s0)) @ concat (map points frames),
                      frame_id := frame_id (last frames)\<rparr>),
              new_cloud_available_flag := False\<rparr>)"
    using assms by (intro waitForCloudK_loop_unaliased) (simp_all add: ptr)
  also have "\<dots> = Some (s\<lparr>store := (store s)(cloud s := last frames,
                 cloud_aggregated s :=
                   (store s (cloud_aggregated s))
                     \<lparr>points := concat (map points frames),
                      frame_id := frame_id (last frames)\<rparr>),
              new_cloud_available_flag := False\<rparr>)"
    using assms(1) by (auto simp add: set_points_def fun_eq_iff)
  finally show ?thesis by (simp only: waitForCloudK_def)
qed

lemma waitForCloudK_aliased:
  assumes "cloud s = cloud_aggregated s" and "frames \<noteq> []" and "k = int (length frames)"
  shows "waitForCloudK k s (deliver frames) =
     Some (s\<lparr>store := (store s)(cloud s :=
                 (last frames)\<lparr>points := points (last frames) @ points (last frames)\<rparr>),
              new_cloud_available_flag := False\<rparr>)"
proof -
  let ?s0 = "set_points (cloud_aggregated s) [] s"
  have ptr: "cloud ?s0 = cloud_aggregated ?s0" "cloud ?s0 = cloud s"
    using assms(1) by (simp_all add: set_points_def)
  have "waitForCloudK_loop k 0 ?s0 (deliver frames) =
     Some (?s0\<lparr>store := (store ?s0)(cloud ?s0 :=
                 (last frames)\<lparr>points := points (last frames) @ points (last frames)\<rparr>),
              new_cloud_available_flag := False\<rparr>)"
    using assms by (intro waitForCloudK_loop_aliased) (simp_all add: ptr)
  also have "\<dots> = Some (s\<lparr>store := (store s)(cloud s :=
                 (last frames)\<lparr>points := points (last frames) @ points (last frames)\<rparr>),
              new_cloud_available_flag := False\<rparr>)"
    using assms(1) by (auto simp add: set_points_def fun_eq_iff)
  finally show ?thesis by (simp only: waitForCloudK_def)
qed

lemma waitForCloudK_loop_frame:
  "waitForCloudK_loop k counter s ticks = Some s' \<Longrightarrow>
     cloud s' = cloud s \<and> cloud_aggregated s' = cloud_aggregated s \<and>
     cloud_plane s' = cloud_plane s \<and> cloud_blobs s' = cloud_blobs s \<and>
     clusters_on_plane s' = clusters_on_plane s \<and> published s' = published s"
proof (induction k counter s ticks rule: waitForCloudK_loop.induct)
  case (1 k counter s)
  then show ?case by simp
next
  case (2 k counter s ticks)
  then show ?case by simp
next
  case (3 k counter s delivered ticks)
  let ?s1 = "spinOnce delivered s"
  have p1: "cloud ?s1 = cloud s \<and> cloud_aggregated ?s1 = cloud_aggregated s \<and>
     cloud_plane ?s1 = cloud_plane s \<and> cloud_blobs ?s1 = cloud_blobs s \<and>
     clusters_on_plane ?s1 = clusters_on_plane s \<and> published ?s1 = published s"
    by (cases delivered) (simp_all add: cloud_cb_def)
  show ?case
  proof (cases "new_cloud_available_flag ?s1")
    case False
    with 3 p1 show ?thesis by (simp add: Let_def)
  next
    case True
    let ?s3 = "(append_cloud (cloud_aggregated ?s1) (cloud ?s1) ?s1)\<lparr>new_cloud_available_flag := False\<rparr>"
    have p3: "cloud ?s3 = cloud s \<and> cloud_aggregated ?s3 = cloud_aggregated s \<and>
     cloud_plane ?s3 = cloud_plane s \<and> cloud_blobs ?s3 = cloud_blobs s \<and>
     clusters_on_plane ?s3 = clusters_on_plane s \<and> published ?s3 = published s"
      using p1 by (simp add: append_cloud_def set_points_def)
    show ?thesis
    proof (cases "counter + 1 \<ge> k")
      case True
      with 3 \<open>new_cloud_available_flag ?s1\<close> p3 show ?thesis by (auto simp add: Let_def)
    next
      case False
      with 3 \<open>new_cloud_available_flag ?s1\<close> p3 show ?thesis by (simp add: Let_def)
    qed
  qed
qed

lemma waitForCloudK_frame:
  "waitForCloudK k s ticks = Some s' \<Longrightarrow>
     cloud s' = cloud s \<and> cloud_aggregated s' = cloud_aggregated s \<and>
     cloud_plane s' = cloud_plane s \<and> cloud_blobs s' = cloud_blobs s \<and>
     clusters_on_plane s' = clusters_on_plane s \<and> published s' = published s"
  using waitForCloudK_loop_frame [of k 0 "set_points (cloud_aggregated s) [] s" ticks s']
  by (simp add: waitForCloudK_def set_points_def)

subsection \<open>Facts about the rounding\<close>

lemma pow2_powr: "pow2 e = 2 powr (real_of_int e)"
proof (cases "0 \<le> e")
  case True
  then have "2 powr (real_of_int e) = (2::real) ^ nat e"
    by (metis of_int_of_nat_eq of_nat_nat powr_realpow zero_less_numeral)
  with True show ?thesis by (simp add: pow2_def)
next
  case False
  then have "real_of_int e = - real (nat (- e))" by simp
  then have "2 powr (real_of_int e) = 1 / (2::real) ^ nat (- e)"
    by (simp add: powr_minus powr_realpow inverse_eq_divide del: of_nat_nat)
  with False show ?thesis by (simp add: pow2_def)
qed

lemma round_binary_in_binade:
  assumes "pow2 e \<le> \<bar>x\<bar>" and "\<bar>x\<bar> < pow2 (e + 1)"
  shows "round_binary p x =
           of_int (round_to_even (x / pow2 (e - int p + 1))) * pow2 (e - int p + 1)"
proof -
  have pos: "0 < \<bar>x\<bar>"
    using assms(1) by (simp add: pow2_powr) (smt (verit) powr_gt_zero)
  have "\<lfloor>log 2 \<bar>x\<bar>\<rfloor> = e"
    using assms pos by (simp add: floor_log_eq_powr_iff pow2_powr)
  moreover from pos have "x \<noteq> 0" by auto
  ultimately show ?thesis by (simp add: round_binary_def Let_def)
qed

text \<open>The double nearest to 0.1, and the floats the code derives from the fitted values
  0, 0 and 1: \<open>0.1f\<close>, \<open>0.5\<close> and \<open>1.1f\<close>.\<close>

lemma double_tenth: "to_double (1/10) = 3602879701896397 / 36028797018963968"
  unfolding to_double_def
  by (subst round_binary_in_binade [where e = "-4"]) (simp_all add: pow2_def round_to_even_def)

lemma double_half: "to_double (1/2) = 1/2"
  unfolding to_double_def
  by (subst round_binary_in_binade [where e = "-1"]) (simp_all add: pow2_def round_to_even_def)

lemma double_tenth_fixed:
  "to_double (3602879701896397 / 36028797018963968) = 3602879701896397 / 36028797018963968"
  unfolding to_double_def
  by (subst round_binary_in_binade [where e = "-4"]) (simp_all add: pow2_def round_to_even_def)

lemma float_tenth: "to_float (3602879701896397 / 36028797018963968) = 13421773 / 134217728"
  unfolding to_float_def
  by (subst round_binary_in_binade [where e = "-4"]) (simp_all add: pow2_def round_to_even_def)

lemma float_half: "to_float (1/2) = 1/2"
  unfolding to_float_def
  by (subst round_binary_in_binade [where e = "-1"]) (simp_all add: pow2_def round_to_even_def)

lemma double_one_and_tenth:
  "to_double (1 + 3602879701896397 / 36028797018963968) = 4953959590107546 / 4503599627370496"
  unfolding to_double_def
  by (subst round_binary_in_binade [where e = "0"]) (simp_all add: pow2_def round_to_even_def)

lemma float_one_and_tenth: "to_float (4953959590107546 / 4503599627370496) = 9227469 / 8388608"
  unfolding to_float_def
  by (subst round_binary_in_binade [where e = "0"]) (simp_all add: pow2_def round_to_even_def)

lemma plane_coefficients_example:
  "plane_coefficients_of [0, 0, 1, - (1/2)] =
     (13421773 / 134217728, 1/2, 9227469 / 8388608, - (1/2))"
proof -
  have "plane_coefficients_of [0, 0, 1, - (1/2)] =
          (to_float (to_double (to_double (1/10))), to_float (to_double (to_double (1/2))),
           to_float (to_double (1 + to_double (1/10))), - (1/2))"
    by (simp add: plane_coefficients_of_def)
  then show ?thesis
    by (simp only: double_tenth double_tenth_fixed float_tenth double_half float_half
        double_one_and_tenth float_one_and_tenth)
qed

subsection \<open>Facts about the detect service\<close>

lemma segment_cloud_pointers:
  "segment_cloud lib s res = Returned ok res' s' \<Longrightarrow>
     cloud s' = cloud s \<and> cloud_aggregated s' = cloud_aggregated s"
  by (auto simp: segment_cloud_def report_clusters_def Let_def range_filter_def set_points_def
      publish_blobs_def split: prod.splits sum.splits if_splits)

lemma seg_cb_leaves_alias:
  assumes "state_of (seg_cb lib s ticks res) = Some s'"
  shows "cloud s' = cloud_aggregated s'"
proof -
  from assms obtain ok res' where r: "seg_cb lib s ticks res = Returned ok res' s'"
    by (cases "seg_cb lib s ticks res") auto
  then obtain s1 where "waitForCloudK 15 s ticks = Some s1"
    and "segment_cloud lib (s1\<lparr>cloud := cloud_aggregated s1\<rparr>) res = Returned ok res' s'"
    by (auto simp: seg_cb_def split: option.splits)
  then show ?thesis using segment_cloud_pointers by fastforce
qed

lemma seg_cb_plane_found:
  assumes fi: "filtered_input lib s ticks = Some filtered"
    and fit: "segment lib (points filtered) = (inliers, values)"
    and pl: "extractIndices lib (points filtered) inliers False = Inr plane"
    and ne: "plane \<noteq> []"
    and bl: "extractIndices lib (points filtered) inliers True = Inr blobs"
    and len: "4 \<le> length values"
    and cl: "computeClusters lib (filtered\<lparr>points := blobs\<rparr>) 0.04 = Inr clusters"
  shows "response_of (seg_cb lib s ticks res) =
     Some (res\<lparr>res_is_plane_found := True,
               res_cloud_plane := filtered\<lparr>points :=
                 cropBox lib (0, 0, 0, 1) (plane_coefficients_of values) (points filtered)\<rparr>,
               res_cloud_plane_coef := plane_coefficients_of values,
               res_cloud_clusters := res_cloud_clusters res @
                 map (\<lambda>blob. blob\<lparr>frame_id := frame_id filtered\<rparr>)
                   (filter (\<lambda>blob. filter_blob (pointToPlaneDistance lib) blob
                              (plane_coefficients_of values) plane_distance_tolerance) clusters)\<rparr>)"
proof -
  from fi obtain s1 where agg: "waitForCloudK 15 s ticks = Some s1"
    and f: "filtered = filtered_cloud_of lib s1"
    by (auto simp: filtered_input_def)
  let ?s = "range_filter lib (s1\<lparr>cloud := cloud_aggregated s1\<rparr>)"
  have f': "cloud_filtered lib ?s = filtered" by (simp add: f filtered_cloud_of_def)
  have tag: "frame_id (store ?s (cloud ?s)) = frame_id filtered"
    by (simp add: f filtered_cloud_of_def cloud_filtered_def)
  show ?thesis
    using fit pl ne bl len cl tag
    by (simp add: seg_cb_def agg segment_cloud_def Let_def f' report_clusters_def publish_blobs_def
        set_points_def)
qed

lemma seg_cb_no_plane:
  assumes fi: "filtered_input lib s ticks = Some filtered"
    and fit: "segment lib (points filtered) = (inliers, values)"
    and ext: "extractIndices lib (points filtered) inliers False = Inr []"
  shows "value_of (seg_cb lib s ticks res) = Some True \<and>
         response_of (seg_cb lib s ticks res) = Some (res\<lparr>res_is_plane_found := False\<rparr>) \<and>
         map_option clusters_on_plane (state_of (seg_cb lib s ticks res)) =
           Some (clusters_on_plane s) \<and>
         map_option published (state_of (seg_cb lib s ticks res)) = Some (published s)"
proof -
  from fi obtain s1 where agg: "waitForCloudK 15 s ticks = Some s1"
    and f: "filtered = filtered_cloud_of lib s1"
    by (auto simp: filtered_input_def)
  let ?s = "range_filter lib (s1\<lparr>cloud := cloud_aggregated s1\<rparr>)"
  have f': "cloud_filtered lib ?s = filtered" by (simp add: f filtered_cloud_of_def)
  have keep: "clusters_on_plane ?s = clusters_on_plane s" "published ?s = published s"
    using waitForCloudK_frame [OF agg] by (simp_all add: range_filter_def set_points_def)
  show ?thesis
    using fit ext keep
    by (simp add: seg_cb_def agg segment_cloud_def Let_def f')
qed

subsection \<open>The concrete request, evaluated\<close>

lemma aggregation_example:
  "waitForCloudK 15 initial_state (deliver frames15) = Some state15"
  unfolding state15_def
  by (rule waitForCloudK_unaliased) (simp_all add: initial_state_def frames15_def)

lemma filtered_cloud_example:
  "filtered_cloud_of (spec_pcl estimator) state15 = cloud_of [point_at 0 0 (1/2)]"
  by (simp add: state15_def filtered_cloud_of_def cloud_filtered_def range_filter_def set_points_def
      initial_state_def spec_pcl_def spec_passThrough_def frames15_def frame0_def cloud_of_def
      spec_voxelGrid_def voxel_of_def centroid_def point_at_def)

lemma filtered_input_example:
  "filtered_input (spec_pcl estimator) initial_state (deliver frames15) =
     Some (cloud_of [point_at 0 0 (1/2)])"
  by (simp only: filtered_input_def aggregation_example option.map filtered_cloud_example)

lemma seg_cb_example:
  "response_of (seg_cb lib0 initial_state (deliver frames15) default_response) =
     Some \<lparr>res_is_plane_found = True, res_cloud_plane = cloud_of [point_at 0 0 (1/2)],
           res_cloud_plane_coef = (13421773 / 134217728, 1/2, 9227469 / 8388608, - (1/2)),
           res_cloud_clusters = []\<rparr>"
proof -
  have fi: "filtered_input lib0 initial_state (deliver frames15) =
              Some (cloud_of [point_at 0 0 (1/2)])"
    unfolding lib0_def by (rule filtered_input_example)
  have "response_of (seg_cb lib0 initial_state (deliver frames15) default_response) =
     Some (default_response\<lparr>res_is_plane_found := True,
               res_cloud_plane := (cloud_of [point_at 0 0 (1/2)])\<lparr>points :=
                 cropBox lib0 (0, 0, 0, 1) (plane_coefficients_of [0, 0, 1, - (1/2)])
                   (points (cloud_of [point_at 0 0 (1/2)]))\<rparr>,
               res_cloud_plane_coef := plane_coefficients_of [0, 0, 1, - (1/2)],
               res_cloud_clusters := res_cloud_clusters default_response @
                 map (\<lambda>blob. blob\<lparr>frame_id := frame_id (cloud_of [point_at 0 0 (1/2)])\<rparr>)
                   (filter (\<lambda>blob. filter_blob (pointToPlaneDistance lib0) blob
                              (plane_coefficients_of [0, 0, 1, - (1/2)]) plane_distance_tolerance) [])\<rparr>)"
  proof (rule seg_cb_plane_found [OF fi])
    show "segment lib0 (points (cloud_of [point_at 0 0 (1/2)])) = ([0], [0, 0, 1, - (1/2)])"
      by (simp add: lib0_def spec_pcl_def)
    show "extractIndices lib0 (points (cloud_of [point_at 0 0 (1/2)])) [0] False =
            Inr [point_at 0 0 (1/2)]"
      by (simp add: lib0_def spec_pcl_def spec_extractIndices_def cloud_of_def)
    show "[point_at 0 0 (1/2)] \<noteq> []" by simp
    show "extractIndices lib0 (points (cloud_of [point_at 0 0 (1/2)])) [0] True = Inr []"
      by (simp add: lib0_def spec_pcl_def spec_extractIndices_def cloud_of_def)
    show "4 \<le> length [0, 0, 1, - (1/2) :: real]" by simp
    show "computeClusters lib0 ((cloud_of [point_at 0 0 (1/2)])\<lparr>points := []\<rparr>) 0.04 = Inr []"
      by (simp add: computeClusters_def cluster_indices_of_def lib0_def spec_pcl_def
          spec_euclideanClusterExtraction_def)
  qed
  then show ?thesis
    by (simp add: default_response_def plane_coefficients_example lib0_def spec_pcl_def
        spec_cropBox_def cloud_of_def point_at_def)
qed





text \<open>What a request that finds a plane has done on the way to its response.\<close>

lemma seg_cb_found_response:
  assumes "filtered_input lib s ticks = Some filtered"
    and "segment lib (points filtered) = (inliers, values)"
    and "response_of (seg_cb lib s ticks res) = Some res'"
    and "res_is_plane_found res'"
  shows "\<exists>plane blobs clusters.
           extractIndices lib (points filtered) inliers False = Inr plane \<and> plane \<noteq> [] \<and>
           extractIndices lib (points filtered) inliers True = Inr blobs \<and>
           4 \<le> length values \<and>
           computeClusters lib (filtered\<lparr>points := blobs\<rparr>) 0.04 = Inr clusters"
proof -
  from assms(1) obtain s1 where agg: "waitForCloudK 15 s ticks = Some s1"
    and f: "filtered = filtered_cloud_of lib s1"
    by (auto simp: filtered_input_def)
  obtain ok s' where ret: "seg_cb lib s ticks res = Returned ok res' s'"
    using assms(3) by (cases "seg_cb lib s ticks res") auto
  from ret assms(4) assms(2) show ?thesis
    by (auto simp: seg_cb_def agg f segment_cloud_def report_clusters_def filtered_cloud_of_def
        Let_def publish_blobs_def set_points_def split: sum.splits if_splits prod.splits)
qed

subsection \<open>The response of a detect request\<close>

text \<open>
  C1 (amended). When a request returns with a plane found, the four coefficients of
  the response are not the fitted ones but the vector with the offsets added: for the
  fitted values \<open>(a, b, c, d)\<close> they are the floats nearest to the double-precision sums
  \<open>a + 0.1\<close>, \<open>b + 0.5\<close> and \<open>c + 0.1\<close>, and \<open>d\<close> as fitted. It is the very vector
  the crop box gets as its maximum and the proximity filter gets as its plane.
\<close>

theorem response_coefficients_are_adjusted:
  assumes "filtered_input lib s ticks = Some filtered"
    and "segment lib (points filtered) = (inliers, values)"
    and "response_of (seg_cb lib s ticks res) = Some res'"
    and "res_is_plane_found res'"
  shows "4 \<le> length values \<and>
         res_cloud_plane_coef res' =
           (to_float (to_double (values ! 0 + to_double 0.1)),
            to_float (to_double (values ! 1 + to_double 0.5)),
            to_float (to_double (values ! 2 + to_double 0.1)),
            values ! 3) \<and>
         points (res_cloud_plane res') =
           cropBox lib (0, 0, 0, 1) (res_cloud_plane_coef res') (points filtered) \<and>
         (\<exists>blobs clusters.
            extractIndices lib (points filtered) inliers True = Inr blobs \<and>
            computeClusters lib (filtered\<lparr>points := blobs\<rparr>) 0.04 = Inr clusters \<and>
            map points (res_cloud_clusters res') =
              map points (res_cloud_clusters res) @
              map points (filter (\<lambda>blob. filter_blob (pointToPlaneDistance lib) blob
                                   (res_cloud_plane_coef res') plane_distance_tolerance) clusters))"
proof -
  from seg_cb_found_response [OF assms] obtain plane blobs clusters
    where pl: "extractIndices lib (points filtered) inliers False = Inr plane" and ne: "plane \<noteq> []"
      and bl: "extractIndices lib (points filtered) inliers True = Inr blobs"
      and len: "4 \<le> length values"
      and cl: "computeClusters lib (filtered\<lparr>points := blobs\<rparr>) 0.04 = Inr clusters"
    by blast
  from seg_cb_plane_found [OF assms(1) assms(2) pl ne bl len cl, of res] assms(3)
  have res': "res' = res\<lparr>res_is_plane_found := True,
               res_cloud_plane := filtered\<lparr>points :=
                 cropBox lib (0, 0, 0, 1) (plane_coefficients_of values) (points filtered)\<rparr>,
               res_cloud_plane_coef := plane_coefficients_of values,
               res_cloud_clusters := res_cloud_clusters res @
                 map (\<lambda>blob. blob\<lparr>frame_id := frame_id filtered\<rparr>)
                   (filter (\<lambda>blob. filter_blob (pointToPlaneDistance lib) blob
                              (plane_coefficients_of values) plane_distance_tolerance) clusters)\<rparr>"
    by simp
  have "map points (res_cloud_clusters res') =
          map points (res_cloud_clusters res) @
          map points (filter (\<lambda>blob. filter_blob (pointToPlaneDistance lib) blob
                               (res_cloud_plane_coef res') plane_distance_tolerance) clusters)"
    by (simp add: res' comp_def)
  with bl cl len show ?thesis
    by (auto simp: res' plane_coefficients_of_def)
qed

theorem response_coefficients_are_adjusted_witness:
  "filtered_input lib0 initial_state (deliver frames15) = Some (cloud_of [point_at 0 0 (1/2)]) \<and>
   segment lib0 (points (cloud_of [point_at 0 0 (1/2)])) = ([0], [0, 0, 1, - (1/2)]) \<and>
   map_option res_is_plane_found
     (response_of (seg_cb lib0 initial_state (deliver frames15) default_response)) = Some True \<and>
   map_option res_cloud_plane_coef
     (response_of (seg_cb lib0 initial_state (deliver frames15) default_response)) =
     Some (to_float (to_double (0 + to_double 0.1)), to_float (to_double (0 + to_double 0.5)),
           to_float (to_double (1 + to_double 0.1)), - (1/2)) \<and>
   (to_float (to_double (0 + to_double 0.1)), to_float (to_double (0 + to_double 0.5)),
    to_float (to_double (1 + to_double 0.1)), - (1/2)) =
     (13421773 / 134217728, 1/2, 9227469 / 8388608, - (1/2))"
proof -
  have fi: "filtered_input lib0 initial_state (deliver frames15) =
              Some (cloud_of [point_at 0 0 (1/2)])"
    unfolding lib0_def by (rule filtered_input_example)
  have fit: "segment lib0 (points (cloud_of [point_at 0 0 (1/2)])) = ([0], [0, 0, 1, - (1/2)])"
    by (simp add: lib0_def spec_pcl_def)
  have found: "res_is_plane_found
     \<lparr>res_is_plane_found = True, res_cloud_plane = cloud_of [point_at 0 0 (1/2)],
      res_cloud_plane_coef = (13421773 / 134217728, 1/2, 9227469 / 8388608, - (1/2)),
      res_cloud_clusters = []\<rparr>"
    by simp
  from response_coefficients_are_adjusted [OF fi fit seg_cb_example found]
  have "(13421773 / 134217728, 1/2, 9227469 / 8388608, - (1/2)) =
          (to_float (to_double ([0, 0, 1, - (1/2)] ! 0 + to_double 0.1)),
           to_float (to_double ([0, 0, 1, - (1/2)] ! 1 + to_double 0.5)),
           to_float (to_double ([0, 0, 1, - (1/2)] ! 2 + to_double 0.1)),
           [0, 0, 1, - (1/2) :: real] ! 3)"
    by simp
  then have eq: "(to_float (to_double (0 + to_double 0.1)), to_float (to_double (0 + to_double 0.5)),
                  to_float (to_double (1 + to_double 0.1)), - (1/2)) =
                 (13421773 / 134217728, 1/2, 9227469 / 8388608, - (1/2))"
    by simp
  show ?thesis
    using fi fit seg_cb_example eq by simp
qed

text \<open>
  C1 as stated fails: the estimator reports the coefficients \<open>(0, 0, 1, -0.5)\<close>, a plane
  is found, and the response carries \<open>(0.1f, 0.5, 1.1f, -0.5)\<close>.
\<close>

theorem response_coefficients_counterexample:
  "filtered_input lib0 initial_state (deliver frames15) = Some (cloud_of [point_at 0 0 (1/2)]) \<and>
   snd (segment lib0 (points (cloud_of [point_at 0 0 (1/2)]))) = [0, 0, 1, - (1/2)] \<and>
   map_option res_is_plane_found
     (response_of (seg_cb lib0 initial_state (deliver frames15) default_response)) = Some True \<and>
   map_option res_cloud_plane_coef
     (response_of (seg_cb lib0 initial_state (deliver frames15) default_response)) =
     Some (13421773 / 134217728, 1/2, 9227469 / 8388608, - (1/2)) \<and>
   (13421773 / 134217728, 1/2, 9227469 / 8388608, - (1/2)) \<noteq> ((0::real), (0::real), (1::real), - (1/2 :: real))"
proof -
  have fi: "filtered_input lib0 initial_state (deliver frames15) =
              Some (cloud_of [point_at 0 0 (1/2)])"
    unfolding lib0_def by (rule filtered_input_example)
  show ?thesis using fi seg_cb_example by (simp add: lib0_def spec_pcl_def)
qed




text \<open>
  C3. When the estimator reports no inlier, and the library's extraction of no index
  is the empty cloud, the request returns \<^verbatim>\<open>true\<close>; the response is the one it was
  given with \<^verbatim>\<open>is_plane_found\<close> set to false, so every other field stays as the
  service layer initialised it; the list of clusters on the plane is not even cleared
  and nothing is published; and the outcome is the same whatever the library's crop box,
  cluster extraction and point-to-plane distance are: neither the clustering nor the
  proximity filter has run.
\<close>

theorem no_plane_short_circuits:
  assumes "filtered_input lib s ticks = Some filtered"
    and "segment lib (points filtered) = ([], values)"
    and "extractIndices lib (points filtered) [] False = Inr []"
  shows "value_of (seg_cb lib s ticks res) = Some True \<and>
         response_of (seg_cb lib s ticks res) = Some (res\<lparr>res_is_plane_found := False\<rparr>) \<and>
         default_response\<lparr>res_is_plane_found := False\<rparr> = default_response \<and>
         map_option clusters_on_plane (state_of (seg_cb lib s ticks res)) =
           Some (clusters_on_plane s) \<and>
         map_option published (state_of (seg_cb lib s ticks res)) = Some (published s) \<and>
         seg_cb (lib\<lparr>cropBox := crop, euclideanClusterExtraction := extract,
                     pointToPlaneDistance := pdist\<rparr>) s ticks res =
           seg_cb lib s ticks res"
proof -
  let ?lib = "lib\<lparr>cropBox := crop, euclideanClusterExtraction := extract,
                  pointToPlaneDistance := pdist\<rparr>"
  from assms(1) obtain s1 where agg: "waitForCloudK 15 s ticks = Some s1"
    and f: "filtered = filtered_cloud_of lib s1"
    by (auto simp: filtered_input_def)
  let ?s = "range_filter lib (s1\<lparr>cloud := cloud_aggregated s1\<rparr>)"
  have f': "cloud_filtered lib ?s = filtered" by (simp add: f filtered_cloud_of_def)
  have same: "range_filter ?lib = range_filter lib" "cloud_filtered ?lib = cloud_filtered lib"
    by (simp_all add: range_filter_def cloud_filtered_def fun_eq_iff)
  have indep: "seg_cb ?lib s ticks res = seg_cb lib s ticks res"
    using assms(2) assms(3)
    by (simp add: seg_cb_def agg segment_cloud_def Let_def same f')
  show ?thesis
    using seg_cb_no_plane [OF assms, of res] indep by (simp add: default_response_def)
qed

theorem no_plane_short_circuits_witness:
  "filtered_input lib_no_plane initial_state (deliver frames15) =
     Some (cloud_of [point_at 0 0 (1/2)]) \<and>
   segment lib_no_plane (points (cloud_of [point_at 0 0 (1/2)])) = ([], []) \<and>
   extractIndices lib_no_plane (points (cloud_of [point_at 0 0 (1/2)])) [] False = Inr [] \<and>
   value_of (seg_cb lib_no_plane initial_state (deliver frames15) default_response) = Some True \<and>
   response_of (seg_cb lib_no_plane initial_state (deliver frames15) default_response) =
     Some default_response"
proof -
  have fi: "filtered_input lib_no_plane initial_state (deliver frames15) =
              Some (cloud_of [point_at 0 0 (1/2)])"
    unfolding lib_no_plane_def by (rule filtered_input_example)
  have fit: "segment lib_no_plane (points (cloud_of [point_at 0 0 (1/2)])) = ([], [])"
    by (simp add: lib_no_plane_def spec_pcl_def)
  have ext: "extractIndices lib_no_plane (points (cloud_of [point_at 0 0 (1/2)])) [] False = Inr []"
    by (simp add: lib_no_plane_def spec_pcl_def spec_extractIndices_def)
  show ?thesis
    using no_plane_short_circuits [OF fi fit ext, of default_response] fi fit ext
    by simp
qed

subsection \<open>Aggregation in the first and in later requests\<close>

text \<open>At program start the two globals point to different objects, and the aggregation
  returns the points of the \<open>k\<close> frames in arrival order, with the tag of the last.\<close>

lemma first_request_aggregates_all_frames:
  assumes "frames \<noteq> []" and "k = int (length frames)"
  shows "map_option (\<lambda>s'. store s' (cloud_aggregated s'))
           (waitForCloudK k initial_state (deliver frames)) =
         Some \<lparr>points = concat (map points frames), frame_id = frame_id (last frames)\<rparr>"
proof -
  have "cloud initial_state \<noteq> cloud_aggregated initial_state"
    by (simp add: initial_state_def)
  from waitForCloudK_unaliased [OF this assms] show ?thesis
    by (simp add: initial_state_def)
qed

text \<open>
  C5, in a request that follows a returned request. Line 302 has made
  \<^verbatim>\<open>cloud\<close> point to the aggregate, so each frame overwrites the aggregate and is
  then appended to itself: when \<open>k\<close> frames have been observed, the aggregate holds the
  points of the last frame twice, and nothing of the frames before it. The header comment
  of \<^verbatim>\<open>waitForCloudK\<close> (lines 257-262) and the first request say otherwise: the
  aggregate is meant to hold the \<open>k\<close> frames.
\<close>

theorem later_request_aggregates_last_frame_twice:
  assumes "state_of (seg_cb lib s0 ticks0 res0) = Some s"
    and "frames \<noteq> []" and "k = int (length frames)"
  shows "map_option (\<lambda>s'. store s' (cloud_aggregated s')) (waitForCloudK k s (deliver frames)) =
         Some ((last frames)\<lparr>points := points (last frames) @ points (last frames)\<rparr>)"
proof -
  have same: "cloud s = cloud_aggregated s"
    using assms(1) by (rule seg_cb_leaves_alias)
  from waitForCloudK_aliased [OF same assms(2) assms(3)] same show ?thesis
    by simp
qed

theorem later_request_aggregates_last_frame_twice_witness:
  "state_of (seg_cb lib0 initial_state (deliver frames15) default_response) \<noteq> None \<and>
   map_option (\<lambda>s'. points (store s' (cloud_aggregated s')))
     (Option.bind (state_of (seg_cb lib0 initial_state (deliver frames15) default_response))
        (\<lambda>s. waitForCloudK 3 s
           (deliver [cloud_of [point_at 1 0 0], cloud_of [point_at 2 0 0], cloud_of [point_at 3 0 0]]))) =
     Some [point_at 3 0 0, point_at 3 0 0] \<and>
   concat (map points [cloud_of [point_at 1 0 0], cloud_of [point_at 2 0 0], cloud_of [point_at 3 0 0]]) =
     [point_at 1 0 0, point_at 2 0 0, point_at 3 0 0]"
proof -
  obtain s where s: "state_of (seg_cb lib0 initial_state (deliver frames15) default_response) = Some s"
    using seg_cb_example
    by (cases "seg_cb lib0 initial_state (deliver frames15) default_response") auto
  have "map_option (\<lambda>s'. store s' (cloud_aggregated s'))
          (waitForCloudK 3 s
             (deliver [cloud_of [point_at 1 0 0], cloud_of [point_at 2 0 0], cloud_of [point_at 3 0 0]])) =
        Some ((cloud_of [point_at 3 0 0])\<lparr>points := [point_at 3 0 0, point_at 3 0 0]\<rparr>)"
    using later_request_aggregates_last_frame_twice [OF s, of
        "[cloud_of [point_at 1 0 0], cloud_of [point_at 2 0 0], cloud_of [point_at 3 0 0]]" 3]
    by (simp add: cloud_of_def)
  then have "map_option (\<lambda>s'. points (store s' (cloud_aggregated s')))
          (waitForCloudK 3 s
             (deliver [cloud_of [point_at 1 0 0], cloud_of [point_at 2 0 0], cloud_of [point_at 3 0 0]])) =
        Some [point_at 3 0 0, point_at 3 0 0]"
    by (auto simp: map_option_case split: option.splits)
  with s show ?thesis by (simp add: cloud_of_def)
qed

subsection \<open>Voxel downsampling and the partition by the plane\<close>

text \<open>
  C9. The voxel downsampling yields one point per occupied voxel, so it never yields
  more points than it is given.
\<close>

theorem voxel_downsampling_never_increases_point_count:
  "length (spec_voxelGrid L ps) = card (voxel_of L ` set ps) \<and>
   length (spec_voxelGrid L ps) \<le> length ps \<and>
   length (points (cloud_filtered (spec_pcl estimator) s)) \<le> length (points (store s (cloud s)))"
proof -
  have n: "length (spec_voxelGrid L ps) = length (remdups (map (voxel_of L) ps))" for L ps
    by (simp add: spec_voxelGrid_def)
  have le: "length (spec_voxelGrid L ps) \<le> length ps" for L ps
    using length_remdups_leq [of "map (voxel_of L) ps"] by (simp add: n)
  have "length (spec_voxelGrid L ps) = card (voxel_of L ` set ps)"
    by (simp add: n length_remdups_card_conv)
  moreover have "length (points (cloud_filtered (spec_pcl estimator) s)) \<le> length (points (store s (cloud s)))"
    by (simp add: cloud_filtered_def spec_pcl_def le)
  ultimately show ?thesis using le [of L ps] by simp
qed






subsection \<open>Facts about the cluster extraction\<close>

lemma grow_subset: "set (grow adj queue unvisited) \<subseteq> set queue \<union> set unvisited"
  by (induction adj queue unvisited rule: grow.induct) auto

lemma grow_queue: "set queue \<subseteq> set (grow adj queue unvisited)"
  by (induction adj queue unvisited rule: grow.induct) auto

lemma grow_closed:
  "a \<in> set (grow adj queue unvisited) \<Longrightarrow> b \<in> set unvisited \<Longrightarrow> adj a b \<Longrightarrow>
     b \<in> set (grow adj queue unvisited)"
proof (induction adj queue unvisited rule: grow.induct)
  case (1 adj unvisited)
  then show ?case by simp
next
  case (2 adj i queue unvisited)
  let ?N = "filter (adj i) unvisited"
  let ?U = "filter (\<lambda>j. \<not> adj i j) unvisited"
  let ?G = "grow adj (queue @ ?N) ?U"
  have q: "set (queue @ ?N) \<subseteq> set ?G" by (rule grow_queue)
  show ?case
  proof (cases "adj i b")
    case True
    with "2.prems"(2) have "b \<in> set ?N" by simp
    with q show ?thesis by auto
  next
    case False
    with "2.prems"(2) have bU: "b \<in> set ?U" by simp
    from False "2.prems"(3) have "a \<noteq> i" by auto
    with "2.prems"(1) have "a \<in> set ?G" by simp
    from "2.IH" [OF this bU "2.prems"(3)] show ?thesis by simp
  qed
qed

lemma grow_reachable:
  "b \<in> set (grow adj queue unvisited) \<Longrightarrow> set queue \<union> set unvisited \<subseteq> V \<Longrightarrow>
     \<exists>a \<in> set queue. (a, b) \<in> (edges_within adj V)\<^sup>*"
proof (induction adj queue unvisited rule: grow.induct)
  case (1 adj unvisited)
  then show ?case by simp
next
  case (2 adj i queue unvisited)
  let ?N = "filter (adj i) unvisited"
  let ?U = "filter (\<lambda>j. \<not> adj i j) unvisited"
  let ?G = "grow adj (queue @ ?N) ?U"
  show ?case
  proof (cases "b = i")
    case True
    then show ?thesis by auto
  next
    case False
    with "2.prems"(1) have "b \<in> set ?G" by simp
    moreover have "set (queue @ ?N) \<union> set ?U \<subseteq> V" using "2.prems"(2) by auto
    ultimately obtain a where a: "a \<in> set (queue @ ?N)" and r: "(a, b) \<in> (edges_within adj V)\<^sup>*"
      using "2.IH" by blast
    show ?thesis
    proof (cases "a \<in> set queue")
      case True
      with r show ?thesis by auto
    next
      case False
      with a have "a \<in> set unvisited" and "adj i a" by auto
      with "2.prems"(2) have "(i, a) \<in> edges_within adj V" by (auto simp: edges_within_def)
      from this r have "(i, b) \<in> (edges_within adj V)\<^sup>*" by (rule converse_rtrancl_into_rtrancl)
      then show ?thesis by auto
    qed
  qed
qed

lemma grow_distinct: "distinct (queue @ unvisited) \<Longrightarrow> distinct (grow adj queue unvisited)"
proof (induction adj queue unvisited rule: grow.induct)
  case (1 adj unvisited)
  then show ?case by simp
next
  case (2 adj i queue unvisited)
  let ?N = "filter (adj i) unvisited"
  let ?U = "filter (\<lambda>j. \<not> adj i j) unvisited"
  have "distinct ((queue @ ?N) @ ?U)" using "2.prems" by auto
  then have d: "distinct (grow adj (queue @ ?N) ?U)" by (rule "2.IH")
  have "set (grow adj (queue @ ?N) ?U) \<subseteq> set (queue @ ?N) \<union> set ?U" by (rule grow_subset)
  with "2.prems" have "i \<notin> set (grow adj (queue @ ?N) ?U)" by auto
  with d show ?case by simp
qed

lemma grow_hd: "grow adj (i # queue) unvisited \<noteq> [] \<and> hd (grow adj (i # queue) unvisited) = i"
  by simp

lemma components_subset: "c \<in> set (components adj unprocessed) \<Longrightarrow> set c \<subseteq> set unprocessed"
proof (induction adj unprocessed rule: components.induct)
  case (1 adj)
  then show ?case by simp
next
  case (2 adj i unprocessed)
  let ?c = "grow adj [i] unprocessed"
  from "2.prems" consider "c = ?c" | "c \<in> set (components adj (filter (\<lambda>j. j \<notin> set ?c) unprocessed))"
    by auto
  then show ?case
  proof cases
    case 1
    with grow_subset [of adj "[i]" unprocessed] show ?thesis by auto
  next
    case 2
    from "2.IH" [OF this] show ?thesis by auto
  qed
qed

lemma components_distinct:
  "distinct unprocessed \<Longrightarrow> distinct (concat (components adj unprocessed))"
proof (induction adj unprocessed rule: components.induct)
  case (1 adj)
  then show ?case by simp
next
  case (2 adj i unprocessed)
  let ?c = "grow adj [i] unprocessed"
  let ?rest = "filter (\<lambda>j. j \<notin> set ?c) unprocessed"
  have dc: "distinct ?c" using "2.prems" by (intro grow_distinct) simp
  have dr: "distinct (concat (components adj ?rest))" using "2.prems" by (intro "2.IH") simp
  have "set (concat (components adj ?rest)) \<subseteq> set ?rest"
    using components_subset [of _ adj ?rest] by auto
  then have "set ?c \<inter> set (concat (components adj ?rest)) = {}" by auto
  with dc dr show ?case by simp
qed

lemma components_are_classes:
  "symp adj \<Longrightarrow> c \<in> set (components adj unprocessed) \<Longrightarrow> set unprocessed \<subseteq> V \<Longrightarrow>
   (\<forall>a \<in> set unprocessed. \<forall>b \<in> V. adj a b \<longrightarrow> b \<in> set unprocessed) \<Longrightarrow>
   c \<noteq> [] \<and> set c = {b. (hd c, b) \<in> (edges_within adj V)\<^sup>*}"
proof (induction adj unprocessed rule: components.induct)
  case (1 adj)
  then show ?case by simp
next
  case (2 adj i unprocessed)
  let ?c = "grow adj [i] unprocessed"
  let ?rest = "filter (\<lambda>j. j \<notin> set ?c) unprocessed"
  let ?E = "edges_within adj V"
  note sym = "2.prems"(1) and cin = "2.prems"(2) and UV = "2.prems"(3) and inv = "2.prems"(4)
  have ic: "i \<in> set ?c" by simp
  have sub: "set ?c \<subseteq> set (i # unprocessed)" using grow_subset [of adj "[i]" unprocessed] by auto
  have closed: "b \<in> set ?c" if "a \<in> set ?c" and "b \<in> V" and "adj a b" for a b
  proof -
    from that sub inv have "b \<in> set (i # unprocessed)" by blast
    then show ?thesis
    proof (cases "b = i")
      case True
      then show ?thesis by simp
    next
      case False
      with \<open>b \<in> set (i # unprocessed)\<close> have "b \<in> set unprocessed" by simp
      from grow_closed [OF that(1) this that(3)] show ?thesis .
    qed
  qed
  from cin consider "c = ?c" | "c \<in> set (components adj ?rest)" by auto
  then show ?case
  proof cases
    case 1
    have "set ?c = {b. (i, b) \<in> ?E\<^sup>*}"
    proof (intro set_eqI iffI)
      fix b assume "b \<in> set ?c"
      with grow_reachable [of b adj "[i]" unprocessed V] UV
      show "b \<in> {b. (i, b) \<in> ?E\<^sup>*}" by auto
    next
      fix b assume "b \<in> {b. (i, b) \<in> ?E\<^sup>*}"
      then have "(i, b) \<in> ?E\<^sup>*" by simp
      then show "b \<in> set ?c"
      proof (induction rule: rtrancl_induct)
        case base
        show ?case by (rule ic)
      next
        case (step y z)
        then show ?case using closed [of y z] by (auto simp: edges_within_def)
      qed
    qed
    with 1 show ?thesis by simp
  next
    case 2
    have "set ?rest \<subseteq> V" using UV by auto
    moreover have "\<forall>a \<in> set ?rest. \<forall>b \<in> V. adj a b \<longrightarrow> b \<in> set ?rest"
    proof (intro ballI impI)
      fix a b assume a: "a \<in> set ?rest" and b: "b \<in> V" and ab: "adj a b"
      from a have aU: "a \<in> set unprocessed" and anc: "a \<notin> set ?c" by auto
      from aU b ab inv have bU: "b \<in> set (i # unprocessed)" by auto
      have "b \<notin> set ?c"
      proof
        assume "b \<in> set ?c"
        moreover from ab sym have "adj b a" by (auto dest: sympD)
        moreover from aU UV have "a \<in> V" by auto
        ultimately have "a \<in> set ?c" using closed by blast
        with anc show False by simp
      qed
      with ic bU show "b \<in> set ?rest" by auto
    qed
    ultimately show ?thesis using "2.IH" [OF sym 2] by blast
  qed
qed

lemma connected_symp: "symp (connected tolerance ps)"
  by (auto simp: symp_def connected_def euclideanDistance_def power2_commute)

lemma edges_within_connected:
  "edges_within (connected tolerance ps) (set [0..<length ps]) = proximity_graph tolerance ps"
  by (auto simp: edges_within_def proximity_graph_def)

lemma sym_proximity_graph: "sym (proximity_graph tolerance ps)"
  using connected_symp [of tolerance ps]
  by (auto simp: sym_def proximity_graph_def symp_def)

lemma distinct_concat_filter:
  "distinct (concat cs) \<Longrightarrow> distinct (concat (filter P cs))"
  by (induction cs) auto

lemma distinct_concat_member: "distinct (concat cs) \<Longrightarrow> c \<in> set cs \<Longrightarrow> distinct c"
  by (induction cs) auto

lemma copy_points_in_range:
  "\<forall>i \<in> set indices. i < length ps \<Longrightarrow>
     copy_points ps indices = Inr (map (\<lambda>i. ps ! i) indices)"
  by (induction indices) auto

lemma build_clusters_in_range:
  "\<forall>c \<in> set cluster_indices. \<forall>i \<in> set c. i < length ps \<Longrightarrow>
     build_clusters ps cluster_indices =
       Inr (map (\<lambda>c. \<lparr>points = map (\<lambda>i. ps ! i) c, frame_id = []\<rparr>) cluster_indices)"
  by (induction cluster_indices) (auto simp: copy_points_in_range)

lemma grow_nothing_unvisited: "grow adj queue [] = queue"
  by (induction queue) auto

lemma components_all_adjacent:
  assumes "\<forall>j \<in> set unprocessed. adj i j"
  shows "components adj (i # unprocessed) = [i # unprocessed]"
proof -
  have "filter (adj i) unprocessed = unprocessed" and "filter (\<lambda>j. \<not> adj i j) unprocessed = []"
    using assms by (auto simp: filter_empty_conv)
  then have "grow adj [i] unprocessed = i # unprocessed"
    by (simp add: grow_nothing_unvisited)
  moreover have "filter (\<lambda>j. j \<notin> set (i # unprocessed)) unprocessed = []"
    by (auto simp: filter_empty_conv)
  ultimately show ?thesis by simp
qed

text \<open>
  C7. For every input cloud and tolerance, \<^verbatim>\<open>computeClusters\<close> returns without a
  fault one cloud per extracted index list, made of the points at these indices. Every
  index list has between 50 and 25000 indices, without repetition, and is a connected
  component of the graph in which two indices are joined iff the Euclidean distance of
  their points is at most the tolerance: it holds exactly the indices reachable from any
  of its members. No index occurs in two of the lists.
\<close>

theorem computeClusters_returns_bounded_disjoint_components:
  "computeClusters (spec_pcl estimator) input tolerance =
     Inr (map (\<lambda>c. \<lparr>points = map (\<lambda>i. points input ! i) c, frame_id = []\<rparr>)
            (cluster_indices_of (spec_pcl estimator) input tolerance)) \<and>
   (\<forall>c \<in> set (cluster_indices_of (spec_pcl estimator) input tolerance).
      50 \<le> length c \<and> length c \<le> 25000 \<and> distinct c \<and>
      (\<forall>i \<in> set c. set c = {j. (i, j) \<in> (proximity_graph tolerance (points input))\<^sup>*})) \<and>
   distinct (concat (cluster_indices_of (spec_pcl estimator) input tolerance))"
proof -
  let ?ps = "points input"
  let ?adj = "connected tolerance ?ps"
  let ?all = "components ?adj [0..<length ?ps]"
  let ?cis = "cluster_indices_of (spec_pcl estimator) input tolerance"
  let ?G = "proximity_graph tolerance ?ps"
  have cis: "?cis = filter (\<lambda>c. 50 \<le> length c \<and> length c \<le> 25000) ?all"
    by (simp add: cluster_indices_of_def spec_pcl_def spec_euclideanClusterExtraction_def)
  have dall: "distinct (concat ?all)" by (rule components_distinct) simp
  have range: "set c \<subseteq> set [0..<length ?ps]" if "c \<in> set ?all" for c
    using that by (rule components_subset)
  have cls: "c \<noteq> [] \<and> set c = {b. (hd c, b) \<in> ?G\<^sup>*}" if "c \<in> set ?all" for c
    using components_are_classes [OF connected_symp that, of "set [0..<length ?ps]"]
    by (simp only: edges_within_connected) blast
  have comp: "set c = {j. (i, j) \<in> ?G\<^sup>*}" if c: "c \<in> set ?all" and i: "i \<in> set c" for c i
  proof -
    from cls [OF c] have eq: "set c = {b. (hd c, b) \<in> ?G\<^sup>*}" by simp
    with i have hi: "(hd c, i) \<in> ?G\<^sup>*" by auto
    have "sym (?G\<^sup>*)" using sym_proximity_graph by (rule sym_rtrancl)
    with hi have ih: "(i, hd c) \<in> ?G\<^sup>*" by (auto dest: symD)
    have "(hd c, j) \<in> ?G\<^sup>* \<longleftrightarrow> (i, j) \<in> ?G\<^sup>*" for j
      using hi ih by (auto intro: rtrancl_trans)
    with eq show ?thesis by auto
  qed
  have "computeClusters (spec_pcl estimator) input tolerance =
          Inr (map (\<lambda>c. \<lparr>points = map (\<lambda>i. ?ps ! i) c, frame_id = []\<rparr>) ?cis)"
    unfolding computeClusters_def
  proof (rule build_clusters_in_range, intro ballI)
    fix c i assume "c \<in> set ?cis" and "i \<in> set c"
    with cis have "c \<in> set ?all" by simp
    from range [OF this] \<open>i \<in> set c\<close> show "i < length ?ps" by auto
  qed
  moreover have "\<forall>c \<in> set ?cis. 50 \<le> length c \<and> length c \<le> 25000 \<and> distinct c \<and>
      (\<forall>i \<in> set c. set c = {j. (i, j) \<in> ?G\<^sup>*})"
  proof (intro ballI conjI)
    fix c assume c: "c \<in> set ?cis"
    with cis show "50 \<le> length c" and "length c \<le> 25000" by simp_all
    from c cis have call: "c \<in> set ?all" by simp
    from dall call show "distinct c" by (rule distinct_concat_member)
    fix i assume "i \<in> set c"
    with call show "set c = {j. (i, j) \<in> ?G\<^sup>*}" by (rule comp)
  qed
  moreover have "distinct (concat ?cis)"
    unfolding cis using dall by (rule distinct_concat_filter)
  ultimately show ?thesis by simp
qed

lemma cluster_indices_example: "cluster_indices_of (spec_pcl estimator) cloud50 (1/25) = [[0..<50]]"
proof -
  let ?ps = "replicate 50 (point_at 0 0 (1/2))"
  have upt: "[0..<50] = 0 # [1..<50]" by (simp add: upt_conv_Cons)
  have "\<forall>j \<in> set [1..<50]. connected (1/25) ?ps 0 j"
    by (auto simp: connected_def euclideanDistance_def)
  then have "components (connected (1/25) ?ps) (0 # [1..<50]) = [0 # [1..<50]]"
    by (rule components_all_adjacent)
  then have "components (connected (1/25) ?ps) [0..<50] = [[0..<50]]"
    by (simp only: upt [symmetric])
  then show ?thesis
    by (simp add: cluster_indices_of_def spec_pcl_def spec_euclideanClusterExtraction_def cloud50_def cloud_of_def)
qed

theorem computeClusters_returns_bounded_disjoint_components_witness:
  "cluster_indices_of lib0 cloud50 (1/25) = [[0..<50]] \<and>
   computeClusters lib0 cloud50 (1/25) =
     Inr [\<lparr>points = map (\<lambda>i. points cloud50 ! i) [0..<50], frame_id = []\<rparr>] \<and>
   50 \<le> length [0..<50] \<and> length [0..<50] \<le> 25000 \<and>
   set [0..<50] = {j. (0, j) \<in> (proximity_graph (1/25) (points cloud50))\<^sup>*}"
  using computeClusters_returns_bounded_disjoint_components
          [of "\<lambda>ps. ([0], [0, 0, 1, - (1/2)])" cloud50 "1/25"]
  by (simp add: lib0_def cluster_indices_example)

end
